theory Spec2Isabelle
  imports Complex_Main
begin

section \<open>Data model of the lease manager\<close>

text \<open>
  The lease manager is a class with mutable fields, timers owned by the Node runtime and
  network calls. The embedding passes the state explicitly: a \<open>manager\<close> record for the
  fields of the class and a \<open>runtime\<close> record for what the process holds on its behalf
  (the clock read by \<open>Date.now()\<close>, the table of armed interval timers, the log of the
  requests handed to \<open>fetch\<close>, the log of invoked release callbacks). What the network
  answers is an argument of each operation.

  Millisecond quantities and time values are integers. The TTL and the quota fractions are
  JavaScript numbers: they are given as the rational a JSON number denotes, read and
  multiplied as IEEE binary64 doubles (section \<open>JavaScript numbers\<close>). \<open>Date.now()\<close> is
  the same throughout one call (no latency), and \<open>debugLogToFile\<close> has no effect.
\<close>

text \<open>A JavaScript \<open>Date\<close>: a time value in milliseconds, or the invalid date.\<close>

datatype js_date = Date int | InvalidDate

text \<open>
  The text of a timestamp: a string as it was received, or the string that
  \<open>new Date(t).toISOString()\<close> renders for an in-range time value \<open>t\<close>.
\<close>

datatype timestamp_text = Text string | ISOString int

text \<open>JavaScript truthiness of an optional string (\<open>undefined\<close> and \<open>''\<close> are falsy).\<close>

fun truthy :: "timestamp_text option \<Rightarrow> bool" where
  "truthy None = False"
| "truthy (Some (Text s)) = (s \<noteq> [])"
| "truthy (Some (ISOString t)) = True"

section \<open>JavaScript numbers\<close>

text \<open>
  A JavaScript number: a finite double, held as the rational it is, an infinity or NaN
  (the sign of zero is not kept).
\<close>

datatype number = Fin rat | PInf | NInf | NaN

definition pow2 :: "int \<Rightarrow> rat" where
  "pow2 k = (if 0 \<le> k then 2 ^ nat k else 1 / 2 ^ nat (- k))"

text \<open>The binary exponent of a positive rational: \<open>2 ^ lg2 a \<le> a < 2 ^ (lg2 a + 1)\<close>.\<close>

function lg2 :: "rat \<Rightarrow> int" where
  "lg2 a = (if a \<le> 0 then 0
            else if 2 \<le> a then lg2 (a / 2) + 1
            else if a < 1 then lg2 (a * 2) - 1
            else 0)"
  by pat_completeness auto
termination
proof (relation "measure (\<lambda>a. if 1 \<le> a then nat \<lfloor>a\<rfloor> else nat \<lceil>1 / a\<rceil> + 1)")
  show "wf (measure (\<lambda>a::rat. if 1 \<le> a then nat \<lfloor>a\<rfloor> else nat \<lceil>1 / a\<rceil> + 1))"
    by simp
next
  fix a :: rat
  assume "\<not> a \<le> 0" "2 \<le> a"
  then have "\<lfloor>a / 2\<rfloor> \<le> \<lfloor>a - 1\<rfloor>"
    by (intro floor_mono) simp
  moreover have "1 \<le> \<lfloor>a - 1\<rfloor>"
    using \<open>2 \<le> a\<close> by (simp add: le_floor_iff)
  ultimately show "(a / 2, a) \<in> measure (\<lambda>a. if 1 \<le> a then nat \<lfloor>a\<rfloor> else nat \<lceil>1 / a\<rceil> + 1)"
    using \<open>2 \<le> a\<close> by simp
next
  fix a :: rat
  assume a: "\<not> a \<le> 0" "\<not> 2 \<le> a" "a < 1"
  show "(a * 2, a) \<in> measure (\<lambda>a. if 1 \<le> a then nat \<lfloor>a\<rfloor> else nat \<lceil>1 / a\<rceil> + 1)"
  proof (cases "1 \<le> a * 2")
    case True
    have "\<lfloor>a * 2\<rfloor> = 1"
      using True a by (simp add: floor_eq_iff)
    moreover have "1 < 1 / a"
      using a by simp
    then have "2 \<le> \<lceil>1 / a\<rceil>"
      by (simp add: le_ceiling_iff)
    ultimately show ?thesis
      using True a by simp
  next
    case False
    then have "2 \<le> 1 / a"
      using a by (simp add: field_simps)
    then have "\<lceil>1 / (a * 2)\<rceil> \<le> \<lceil>1 / a - 1\<rceil>"
      using a by (intro ceiling_mono) (simp add: field_simps)
    moreover have "1 \<le> \<lceil>1 / a - 1\<rceil>"
      using \<open>2 \<le> 1 / a\<close> by (simp add: le_ceiling_iff)
    ultimately show ?thesis
      using False a by simp
  qed
qed

declare lg2.simps [simp del]

definition round_half_even :: "rat \<Rightarrow> int" where
  "round_half_even x =
     (let f = \<lfloor>x\<rfloor>; d = x - of_int f in
      if d < 1 / 2 then f else if 1 / 2 < d then f + 1 else if even f then f else f + 1)"

text \<open>
  The double nearest to a rational, ties to even: 53 significant bits, exponents from
  \<open>-1022\<close> (below it the spacing stays \<open>2 ^ -1074\<close>) to \<open>1023\<close> (above it the result is an
  infinity). It is what parsing a JSON number yields, and what a product of two doubles is
  rounded to.
\<close>

definition to_double :: "rat \<Rightarrow> number" where
  "to_double x =
     (if x = 0 then Fin 0
      else
        (let a = \<bar>x\<bar>; e = lg2 a in
         if 1023 < e then (if 0 < x then PInf else NInf)
         else
           (let q = pow2 (max e (- 1022) - 52); r = round_half_even (a / q) in
            if e = 1023 \<and> r = 2 ^ 53 then (if 0 < x then PInf else NInf)
            else Fin (sgn x * of_int r * q))))"

text \<open>The operator \<open>*\<close> on numbers.\<close>

fun js_mul :: "number \<Rightarrow> number \<Rightarrow> number" where
  "js_mul (Fin a) (Fin b) = to_double (a * b)"
| "js_mul NaN y = NaN"
| "js_mul x NaN = NaN"
| "js_mul (Fin a) PInf = (if a = 0 then NaN else if 0 < a then PInf else NInf)"
| "js_mul (Fin a) NInf = (if a = 0 then NaN else if 0 < a then NInf else PInf)"
| "js_mul PInf (Fin b) = (if b = 0 then NaN else if 0 < b then PInf else NInf)"
| "js_mul NInf (Fin b) = (if b = 0 then NaN else if 0 < b then NInf else PInf)"
| "js_mul PInf PInf = PInf"
| "js_mul PInf NInf = NInf"
| "js_mul NInf PInf = NInf"
| "js_mul NInf NInf = PInf"

text \<open>The comparisons \<open><\<close> and \<open><=\<close> on numbers; every comparison with NaN is false.\<close>

fun js_less :: "number \<Rightarrow> number \<Rightarrow> bool" where
  "js_less (Fin a) (Fin b) = (a < b)"
| "js_less NaN y = False"
| "js_less x NaN = False"
| "js_less x NInf = False"
| "js_less PInf y = False"
| "js_less NInf y = True"
| "js_less x PInf = True"

fun js_le :: "number \<Rightarrow> number \<Rightarrow> bool" where
  "js_le (Fin a) (Fin b) = (a \<le> b)"
| "js_le NaN y = False"
| "js_le x NaN = False"
| "js_le NInf y = True"
| "js_le x PInf = True"
| "js_le x NInf = False"
| "js_le PInf y = False"

text \<open>\<open>Math.floor\<close> and \<open>Math.round\<close> (halves go up).\<close>

fun js_floor :: "number \<Rightarrow> number" where
  "js_floor (Fin x) = Fin (of_int \<lfloor>x\<rfloor>)"
| "js_floor x = x"

fun js_round :: "number \<Rightarrow> number" where
  "js_round (Fin x) = Fin (of_int (round x))"
| "js_round x = x"

section \<open>Errors, dates and payloads\<close>

datatype cause =
    FetchRejected
  | HttpStatus int
  | JsonError
  | DecryptError
  | NoNewAccount
  | InvalidTime

text \<open>
  The errors the operations raise, named after the taxonomy: \<open>AcquireFailure\<close> is the
  error \<open>Failed to acquire lease: ...\<close>, \<open>RenewFailure\<close> is \<open>Failed to renew lease: ...\<close>,
  \<open>SwitchFailure\<close> is \<open>Failed to report issue: ...\<close>, and \<open>NoActiveLease\<close> is raised by
  \<open>renew\<close> and \<open>reportIssue\<close> before their \<open>try\<close> block. \<open>CallbackError\<close> is whatever a
  release callback throws: \<open>release\<close> calls it outside its \<open>try\<close> block.
\<close>

datatype error =
    AcquireFailure cause
  | NoActiveLease
  | RenewFailure cause
  | SwitchFailure cause
  | CallbackError

text \<open>
  \<open>toISOString\<close> raises a \<open>RangeError\<close> on the invalid date and on a time value outside
  \<open>\<plusminus>8.64e15\<close> ms.
\<close>

fun toISOString :: "js_date \<Rightarrow> cause + timestamp_text" where
  "toISOString InvalidDate = Inl InvalidTime"
| "toISOString (Date t) =
     (if \<bar>t\<bar> \<le> 8640000000000000 then Inr (ISOString t) else Inl InvalidTime)"

record lease_account =
  email :: string
  refreshToken :: string
  projectId :: "string option"

record lease_state =
  leaseId :: int
  account :: lease_account
  expiresAt :: js_date

datatype action = wait | switch

record rate_limit_decision =
  action :: action
  waitMs :: "int option"
  newAccount :: "lease_account option"

text \<open>
  \<open>LeaseRenewResponse\<close> and \<open>LeaseAcquireResponse\<close>; the second has the two fields of
  the first and \<open>lease_id\<close> and \<open>account\<close> (the encrypted payload, here \<open>account_enc\<close>).
\<close>

record lease_renew_response =
  expires_at :: string
  ttl_seconds :: rat

record lease_acquire_response = lease_renew_response +
  lease_id :: int
  account_enc :: string

text \<open>\<open>DecryptedAccountData.account\<close>.\<close>

record decrypted_account =
  account_email :: string
  refresh_token :: string
  project_id :: "string option"

text \<open>
  The body of a report-issue response: the new lease wrapped as \<open>{new_lease: ...}\<close>, the
  new lease itself, or an object with neither a usable \<open>new_lease\<close> nor the fields
  \<open>lease_id\<close> and \<open>account\<close> (such as \<open>{new_lease: null}\<close> or an error object).
\<close>

datatype report_issue_json =
    NewLease lease_acquire_response
  | Plain lease_acquire_response
  | Neither

text \<open>
  What a \<open>fetch\<close> comes to: the promise rejects (transport error, or the abort of
  \<open>fetchWithTimeout\<close>), or it resolves to a response with its \<open>ok\<close> flag, its status and
  what \<open>response.json()\<close> yields (\<open>None\<close> when parsing raises).
\<close>

datatype 'a fetch_outcome = Rejected | Response bool int "'a option"

text \<open>
  The platform functions the code calls: \<open>decryptData\<close> (AES-256-GCM over Node's
  \<open>crypto\<close>; \<open>None\<close> when it raises) and the \<open>Date\<close> constructor on a string.
\<close>

record platform =
  decryptData :: "string \<Rightarrow> string \<Rightarrow> decrypted_account option"
  newDate :: "string \<Rightarrow> js_date"

record quota_info =
  remainingFraction :: "rat option"
  resetTime :: "string option"

record model_info =
  quotaInfo :: "quota_info option"

record quota_report_entry =
  model_name :: string
  percentage_reported :: number
  reset_time :: "string option"

datatype request =
    AcquireReq string
  | ReleaseReq int string
  | RenewReq int string
  | ReportIssueReq int string string "timestamp_text option"
  | TokenReq string
  | ModelsReq string string
  | QuotaReportReq string "quota_report_entry list"

text \<open>
  A release callback: a function of no argument, told apart by a number, that returns
  normally or throws when it is called.
\<close>

datatype callback = Returns nat | Throws nat

text \<open>
  The two functions given to \<open>setInterval\<close>: the one of \<open>startHeartbeat\<close> and the one of
  \<open>startIdleCheck\<close>. What they do when run is \<open>run_timer\<close>, section \<open>The timer callbacks\<close>.
\<close>

datatype timer_callback = HeartbeatTick | IdleCheckTick

text \<open>
  An armed interval timer: the callback it runs, the period Node runs it at, and the time
  it was armed.
\<close>

record interval_timer =
  callback :: timer_callback
  periodMs :: int
  armedAt :: int

record runtime =
  clock :: int
  nextTimer :: nat
  intervals :: "(nat \<times> interval_timer) list"
  requests :: "request list"
  callbacksRun :: "callback list"

record manager =
  clientId :: string
  apiEndpoint :: string
  apiKey :: string
  lease :: "lease_state option"
  heartbeatTimer :: "nat option"
  lastActivity :: int
  idleTimeoutMs :: int
  idleCheckTimer :: "nat option"
  quotaCheckIntervalMs :: int
  lowQuotaThreshold :: rat
  lastQuotaCheck :: int
  maxRateLimitWaitMs :: int
  onReleaseCallback :: "callback option"

type_synonym state = "manager \<times> runtime"

section \<open>Constants and construction\<close>

definition DEFAULT_HEARTBEAT_RATIO :: rat where
  "DEFAULT_HEARTBEAT_RATIO = 0.5"

definition DEFAULT_IDLE_TIMEOUT_MS :: int where
  "DEFAULT_IDLE_TIMEOUT_MS = 20 * 60 * 1000"

definition IDLE_CHECK_INTERVAL_MS :: int where
  "IDLE_CHECK_INTERVAL_MS = 60 * 1000"

definition DEFAULT_QUOTA_CHECK_INTERVAL_MS :: int where
  "DEFAULT_QUOTA_CHECK_INTERVAL_MS = 2 * 60 * 1000"

definition DEFAULT_LOW_QUOTA_THRESHOLD :: rat where
  "DEFAULT_LOW_QUOTA_THRESHOLD = 0.2"

definition DEFAULT_MAX_RATE_LIMIT_WAIT_MS :: int where
  "DEFAULT_MAX_RATE_LIMIT_WAIT_MS = 10 * 1000"

record lease_manager_config =
  cfg_apiEndpoint :: string
  cfg_apiKey :: string
  cfg_idleTimeoutMs :: "int option"
  cfg_quotaCheckIntervalMs :: "int option"
  cfg_lowQuotaThreshold :: "rat option"
  cfg_maxRateLimitWaitMs :: "int option"

text \<open>
  The constructor; \<open>uuid\<close> is what \<open>generateUUID()\<close> returns and \<open>now\<close> the clock when
  the field initialiser of \<open>lastActivity\<close> runs.
\<close>

definition new_manager :: "lease_manager_config \<Rightarrow> string \<Rightarrow> int \<Rightarrow> manager" where
  "new_manager config uuid now =
     \<lparr> clientId = uuid,
       apiEndpoint = cfg_apiEndpoint config,
       apiKey = cfg_apiKey config,
       lease = None,
       heartbeatTimer = None,
       lastActivity = now,
       idleTimeoutMs = (case cfg_idleTimeoutMs config of
                          None \<Rightarrow> DEFAULT_IDLE_TIMEOUT_MS | Some v \<Rightarrow> v),
       idleCheckTimer = None,
       quotaCheckIntervalMs = (case cfg_quotaCheckIntervalMs config of
                          None \<Rightarrow> DEFAULT_QUOTA_CHECK_INTERVAL_MS | Some v \<Rightarrow> v),
       lowQuotaThreshold = (case cfg_lowQuotaThreshold config of
                          None \<Rightarrow> DEFAULT_LOW_QUOTA_THRESHOLD | Some v \<Rightarrow> v),
       lastQuotaCheck = 0,
       maxRateLimitWaitMs = (case cfg_maxRateLimitWaitMs config of
                          None \<Rightarrow> DEFAULT_MAX_RATE_LIMIT_WAIT_MS | Some v \<Rightarrow> v),
       onReleaseCallback = None \<rparr>"

definition onRelease :: "callback \<Rightarrow> manager \<Rightarrow> manager" where
  "onRelease cb m = m\<lparr>onReleaseCallback := Some cb\<rparr>"

section \<open>The runtime: timers and fetch\<close>

text \<open>
  The period Node arms for a delay: a delay that is not between 1 and \<open>2^31 - 1\<close> (NaN and
  the infinities included) is replaced by 1 ms.
\<close>

definition timer_delay :: "number \<Rightarrow> int" where
  "timer_delay d =
     (case d of
        Fin x \<Rightarrow> if 1 \<le> x \<and> x \<le> 2147483647 then \<lfloor>x\<rfloor> else 1
      | PInf \<Rightarrow> 1
      | NInf \<Rightarrow> 1
      | NaN \<Rightarrow> 1)"

definition setInterval :: "timer_callback \<Rightarrow> number \<Rightarrow> runtime \<Rightarrow> nat \<times> runtime" where
  "setInterval cb ms rt =
     (nextTimer rt,
      rt\<lparr> nextTimer := Suc (nextTimer rt),
          intervals := intervals rt @
            [(nextTimer rt,
              \<lparr>callback = cb, periodMs = timer_delay ms, armedAt = clock rt\<rparr>)] \<rparr>)"



definition clearInterval :: "nat \<Rightarrow> runtime \<Rightarrow> runtime" where
  "clearInterval h rt = rt\<lparr>intervals := filter (\<lambda>e. fst e \<noteq> h) (intervals rt)\<rparr>"

definition fetch :: "request \<Rightarrow> runtime \<Rightarrow> runtime" where
  "fetch r rt = rt\<lparr>requests := requests rt @ [r]\<rparr>"

definition advance :: "int \<Rightarrow> state \<Rightarrow> state" where
  "advance ms s = (fst s, (snd s)\<lparr>clock := clock (snd s) + ms\<rparr>)"

section \<open>Heartbeat and idle timers\<close>

fun stopHeartbeat :: "state \<Rightarrow> state" where
  "stopHeartbeat (m, rt) =
     (case heartbeatTimer m of
        None \<Rightarrow> (m, rt)
      | Some h \<Rightarrow> (m\<lparr>heartbeatTimer := None\<rparr>, clearInterval h rt))"

text \<open>
  \<open>Math.floor(ttlSeconds * DEFAULT_HEARTBEAT_RATIO * 1000)\<close>: the TTL as the double the
  response body gave, two double multiplications from the left, and the floor.
\<close>

definition heartbeat_interval :: "rat \<Rightarrow> number" where
  "heartbeat_interval ttlSeconds =
     js_floor (js_mul (js_mul (to_double ttlSeconds) (to_double DEFAULT_HEARTBEAT_RATIO))
                      (to_double 1000))"

fun startHeartbeat :: "rat \<Rightarrow> state \<Rightarrow> state" where
  "startHeartbeat ttlSeconds s =
     (case stopHeartbeat s of (m, rt) \<Rightarrow>
        (let intervalMs = heartbeat_interval ttlSeconds
         in case setInterval HeartbeatTick intervalMs rt of (h, rt') \<Rightarrow>
              (m\<lparr>heartbeatTimer := Some h\<rparr>, rt')))"

fun stopIdleCheck :: "state \<Rightarrow> state" where
  "stopIdleCheck (m, rt) =
     (case idleCheckTimer m of
        None \<Rightarrow> (m, rt)
      | Some h \<Rightarrow> (m\<lparr>idleCheckTimer := None\<rparr>, clearInterval h rt))"

fun startIdleCheck :: "state \<Rightarrow> state" where
  "startIdleCheck s =
     (case stopIdleCheck s of (m, rt) \<Rightarrow>
        (case setInterval IdleCheckTick (Fin (of_int IDLE_CHECK_INTERVAL_MS)) rt of (h, rt') \<Rightarrow>
           (m\<lparr>idleCheckTimer := Some h\<rparr>, rt')))"

fun updateActivity :: "state \<Rightarrow> state" where
  "updateActivity (m, rt) = (m\<lparr>lastActivity := clock rt\<rparr>, rt)"

section \<open>Accessors\<close>

definition getAccount :: "manager \<Rightarrow> lease_account option" where
  "getAccount m = (case lease m of None \<Rightarrow> None | Some l \<Rightarrow> Some (account l))"

definition getLease :: "manager \<Rightarrow> lease_state option" where
  "getLease m = lease m"

definition hasActiveLease :: "manager \<Rightarrow> bool" where
  "hasActiveLease m = (lease m \<noteq> None)"

definition getMaxRateLimitWaitMs :: "manager \<Rightarrow> int" where
  "getMaxRateLimitWaitMs m = maxRateLimitWaitMs m"

definition shouldSwitchOnRateLimit :: "manager \<Rightarrow> int \<Rightarrow> bool" where
  "shouldSwitchOnRateLimit m ms = (ms > maxRateLimitWaitMs m)"

section \<open>acquire\<close>

definition install_lease ::
  "lease_acquire_response \<Rightarrow> decrypted_account \<Rightarrow> platform \<Rightarrow> lease_state" where
  "install_lease d dec pf =
     \<lparr> leaseId = lease_id d,
       account = \<lparr> email = account_email dec,
                   refreshToken = refresh_token dec,
                   projectId = project_id dec \<rparr>,
       expiresAt = newDate pf (expires_at d) \<rparr>"

text \<open>The body of the \<open>try\<close> block of \<open>acquire\<close>.\<close>

fun acquire_try ::
  "platform \<Rightarrow> lease_acquire_response fetch_outcome \<Rightarrow> state \<Rightarrow> (cause + lease_state) \<times> state" where
  "acquire_try pf out (m, rt0) =
     (let rt = fetch (AcquireReq (clientId m)) rt0 in
      case out of
        Rejected \<Rightarrow> (Inl FetchRejected, (m, rt))
      | Response ok st body \<Rightarrow>
          if \<not> ok then (Inl (HttpStatus st), (m, rt))
          else (case body of
            None \<Rightarrow> (Inl JsonError, (m, rt))
          | Some d \<Rightarrow>
              (case decryptData pf (account_enc d) (apiKey m) of
                 None \<Rightarrow> (Inl DecryptError, (m, rt))
               | Some dec \<Rightarrow>
                   (let l = install_lease d dec pf;
                        s1 = (m\<lparr>lease := Some l\<rparr>, rt);
                        s2 = startHeartbeat (ttl_seconds d) s1;
                        s3 = updateActivity s2;
                        s4 = startIdleCheck s3
                    in case toISOString (expiresAt l) of
                         Inl c \<Rightarrow> (Inl c, s4)
                       | Inr _ \<Rightarrow> (Inr l, s4)))))"

definition acquire ::
  "platform \<Rightarrow> lease_acquire_response fetch_outcome \<Rightarrow> state \<Rightarrow> (error + lease_state) \<times> state" where
  "acquire pf out s =
     (case acquire_try pf out s of
        (Inl c, s') \<Rightarrow> (Inl (AcquireFailure c), s')
      | (Inr l, s') \<Rightarrow> (Inr l, s'))"

section \<open>release\<close>

text \<open>
  \<open>release\<close> up to its \<open>await\<close>: the timers are stopped, and with a lease held the lease is
  cleared and the release request handed to \<open>fetch\<close>. The result says whether the call is
  now waiting for the network.
\<close>

fun release_start :: "state \<Rightarrow> bool \<times> state" where
  "release_start s =
     (case stopIdleCheck (stopHeartbeat s) of (m, rt) \<Rightarrow>
        (case lease m of
           None \<Rightarrow> (False, (m, rt))
         | Some l \<Rightarrow>
             (True, (m\<lparr>lease := None\<rparr>, fetch (ReleaseReq (leaseId l) (clientId m)) rt))))"

text \<open>
  After the \<open>await\<close>: a rejected fetch is caught and a response that is not \<open>ok\<close> is
  logged, inside the \<open>try\<close> block. Then, outside it, the callback is called when one is
  registered, and what it throws leaves \<open>release\<close> as its error.
\<close>

fun call :: "callback \<Rightarrow> error + unit" where
  "call (Returns n) = Inr ()"
| "call (Throws n) = Inl CallbackError"

fun release_finish :: "unit fetch_outcome \<Rightarrow> state \<Rightarrow> (error + unit) \<times> state" where
  "release_finish out (m, rt) =
     (case onReleaseCallback m of
        None \<Rightarrow> (Inr (), (m, rt))
      | Some cb \<Rightarrow> (call cb, (m, rt\<lparr>callbacksRun := callbacksRun rt @ [cb]\<rparr>)))"

definition release :: "unit fetch_outcome \<Rightarrow> state \<Rightarrow> (error + unit) \<times> state" where
  "release out s =
     (case release_start s of
        (False, s') \<Rightarrow> (Inr (), s')
      | (True, s') \<Rightarrow> release_finish out s')"

section \<open>renew\<close>

fun renew_try ::
  "platform \<Rightarrow> lease_renew_response fetch_outcome \<Rightarrow> lease_state \<Rightarrow> state \<Rightarrow> (cause + unit) \<times> state" where
  "renew_try pf out l (m, rt0) =
     (let rt = fetch (RenewReq (leaseId l) (clientId m)) rt0 in
      case out of
        Rejected \<Rightarrow> (Inl FetchRejected, (m, rt))
      | Response ok st body \<Rightarrow>
          if \<not> ok then (Inl (HttpStatus st), (m, rt))
          else (case body of
            None \<Rightarrow> (Inl JsonError, (m, rt))
          | Some d \<Rightarrow>
              (let l' = l\<lparr>expiresAt := newDate pf (expires_at d)\<rparr>;
                   s1 = (m\<lparr>lease := Some l'\<rparr>, rt);
                   s2 = stopHeartbeat s1;
                   s3 = startHeartbeat (ttl_seconds d) s2
               in case toISOString (expiresAt l') of
                    Inl c \<Rightarrow> (Inl c, s3)
                  | Inr _ \<Rightarrow> (Inr (), s3))))"

definition renew ::
  "platform \<Rightarrow> lease_renew_response fetch_outcome \<Rightarrow> state \<Rightarrow> (error + unit) \<times> state" where
  "renew pf out s =
     (case lease (fst s) of
        None \<Rightarrow> (Inl NoActiveLease, s)
      | Some l \<Rightarrow>
          (case renew_try pf out l s of
             (Inl c, s') \<Rightarrow> (Inl (RenewFailure c), s')
           | (Inr u, s') \<Rightarrow> (Inr u, s')))"

section \<open>reportIssue\<close>

fun new_lease_of :: "report_issue_json \<Rightarrow> lease_acquire_response option" where
  "new_lease_of (NewLease d) = Some d"
| "new_lease_of (Plain d) = Some d"
| "new_lease_of Neither = None"

text \<open>The test \<open>!data.lease_id || !data.account\<close> on a body that has both fields.\<close>

definition no_new_account :: "lease_acquire_response \<Rightarrow> bool" where
  "no_new_account d = (lease_id d = 0 \<or> account_enc d = [])"

fun reportIssue_try ::
  "platform \<Rightarrow> string \<Rightarrow> timestamp_text option \<Rightarrow> report_issue_json fetch_outcome \<Rightarrow>
     lease_state \<Rightarrow> state \<Rightarrow> (cause + lease_state) \<times> state" where
  "reportIssue_try pf reason rtime out l (m, rt0) =
     (let rt = fetch (ReportIssueReq (leaseId l) (clientId m) reason
                        (if truthy rtime then rtime else None)) rt0 in
      case out of
        Rejected \<Rightarrow> (Inl FetchRejected, (m, rt))
      | Response ok st body \<Rightarrow>
          if \<not> ok then (Inl (HttpStatus st), (m, rt))
          else (case body of
            None \<Rightarrow> (Inl JsonError, (m, rt))
          | Some rawData \<Rightarrow>
              (case new_lease_of rawData of
                 None \<Rightarrow> (Inl NoNewAccount, (m, rt))
               | Some d \<Rightarrow>
                   if no_new_account d then (Inl NoNewAccount, (m, rt))
                   else
                     (let s0 = stopHeartbeat (m, rt) in
                      case decryptData pf (account_enc d) (apiKey m) of
                        None \<Rightarrow> (Inl DecryptError, s0)
                      | Some dec \<Rightarrow>
                          (let l' = install_lease d dec pf;
                               s1 = ((fst s0)\<lparr>lease := Some l'\<rparr>, snd s0);
                               s2 = startHeartbeat (ttl_seconds d) s1;
                               s3 = updateActivity s2;
                               s4 = startIdleCheck s3
                           in (Inr l', s4))))))"

definition reportIssue ::
  "platform \<Rightarrow> string \<Rightarrow> timestamp_text option \<Rightarrow> report_issue_json fetch_outcome \<Rightarrow>
     state \<Rightarrow> (error + lease_state) \<times> state" where
  "reportIssue pf reason rtime out s =
     (case lease (fst s) of
        None \<Rightarrow> (Inl NoActiveLease, s)
      | Some l \<Rightarrow>
          (case reportIssue_try pf reason rtime out l s of
             (Inl c, s') \<Rightarrow> (Inl (SwitchFailure c), s')
           | (Inr l', s') \<Rightarrow> (Inr l', s')))"

section \<open>handleRateLimit\<close>

text \<open>\<open>x || d\<close> on an optional string.\<close>

fun or_else :: "string option \<Rightarrow> string \<Rightarrow> string" where
  "or_else None d = d"
| "or_else (Some x) d = (if x = [] then d else x)"

text \<open>\<open>given || new Date(Date.now() + ms).toISOString()\<close>.\<close>

definition reset_hint :: "string option \<Rightarrow> int \<Rightarrow> cause + timestamp_text" where
  "reset_hint given t =
     (case given of
        None \<Rightarrow> toISOString (Date t)
      | Some x \<Rightarrow> if x = [] then toISOString (Date t) else Inr (Text x))"

definition wait_decision :: "int \<Rightarrow> rate_limit_decision" where
  "wait_decision ms = \<lparr>action = wait, waitMs = Some ms, newAccount = None\<rparr>"

definition switch_decision :: "lease_account \<Rightarrow> rate_limit_decision" where
  "switch_decision a = \<lparr>action = switch, waitMs = None, newAccount = Some a\<rparr>"

definition handleRateLimit ::
  "platform \<Rightarrow> int \<Rightarrow> string option \<Rightarrow> string option \<Rightarrow> report_issue_json fetch_outcome \<Rightarrow>
     state \<Rightarrow> rate_limit_decision \<times> state" where
  "handleRateLimit pf ms reason quotaResetTime out s =
     (let s1 = updateActivity s in
      if ms \<le> maxRateLimitWaitMs (fst s1) then (wait_decision ms, s1)
      else
        (case reset_hint quotaResetTime (clock (snd s1) + ms) of
           Inl c \<Rightarrow> (wait_decision ms, s1)
         | Inr rtime \<Rightarrow>
             (case reportIssue pf (''rate_limit:'' @ or_else reason ''unknown'') (Some rtime) out s1 of
                (Inl e, s2) \<Rightarrow> (wait_decision ms, s2)
              | (Inr newLease, s2) \<Rightarrow> (switch_decision (account newLease), s2))))"

section \<open>checkQuota\<close>

record token_data =
  access_token :: string

text \<open>
  The body of the model-availability response; \<open>models\<close> is the object's entries in the
  order \<open>Object.values\<close> and \<open>Object.entries\<close> visit them: the keys that are array indices
  first, in ascending order, then the other keys in the order the response has them.
\<close>

record quota_data =
  models :: "(string \<times> model_info) list option"

record quota_snapshot =
  remaining :: number
  total' :: int
  percentage :: number

text \<open>\<open>info.quotaInfo?.remainingFraction ?? 1\<close>, the fraction read as a double.\<close>

definition fraction_of :: "model_info \<Rightarrow> number" where
  "fraction_of info =
     (case quotaInfo info of
        None \<Rightarrow> Fin 1
      | Some q \<Rightarrow> (case remainingFraction q of None \<Rightarrow> Fin 1 | Some f \<Rightarrow> to_double f))"

definition resetTime_of :: "model_info \<Rightarrow> string option" where
  "resetTime_of info = (case quotaInfo info of None \<Rightarrow> None | Some q \<Rightarrow> resetTime q)"

text \<open>One turn of the loop over the entries, on \<open>(minRemainingFraction, earliestResetTime)\<close>.\<close>

definition quota_step ::
  "number \<times> string option \<Rightarrow> model_info \<Rightarrow> number \<times> string option" where
  "quota_step acc info =
     (if js_less (fraction_of info) (fst acc) then (fraction_of info, resetTime_of info)
      else acc)"

definition scan_models :: "model_info list \<Rightarrow> number \<times> string option" where
  "scan_models infos = foldl quota_step (Fin 1, None) infos"

text \<open>
  \<open>Math.round((quotaInfo.remainingFraction || 0) * 100)\<close>: a fraction that is absent or
  zero counts as 0.
\<close>

definition quota_entry :: "string \<times> model_info \<Rightarrow> quota_report_entry" where
  "quota_entry e =
     \<lparr> model_name = fst e,
       percentage_reported =
         js_round (js_mul (case quotaInfo (snd e) of
                             None \<Rightarrow> Fin 0
                           | Some q \<Rightarrow> (case remainingFraction q of
                                         None \<Rightarrow> Fin 0
                                       | Some f \<Rightarrow> to_double f))
                          (to_double 100)),
       reset_time = resetTime_of (snd e) \<rparr>"

text \<open>
  \<open>reportQuotaToServer\<close> up to its \<open>await\<close>; the answer is only logged, and the caller
  does not wait for it.
\<close>

fun reportQuotaToServer :: "(string \<times> model_info) list \<Rightarrow> state \<Rightarrow> state" where
  "reportQuotaToServer ms (m, rt) =
     (case lease m of
        None \<Rightarrow> (m, rt)
      | Some l \<Rightarrow>
          (let quotas = map quota_entry ms in
           if quotas = [] then (m, rt)
           else (m, fetch (QuotaReportReq (email (account l)) quotas) rt)))"

text \<open>The part of \<open>checkQuota\<close> after both responses have been parsed.\<close>

definition quota_poll ::
  "platform \<Rightarrow> quota_data \<Rightarrow> report_issue_json fetch_outcome \<Rightarrow> state \<Rightarrow>
     quota_snapshot option \<times> state" where
  "quota_poll pf quotaData switchOut s =
     (let ms = (case models quotaData of None \<Rightarrow> [] | Some xs \<Rightarrow> xs);
          scanned = scan_models (map snd ms);
          minRemainingFraction = fst scanned;
          earliestResetTime = snd scanned;
          result = \<lparr> remaining = js_round (js_mul minRemainingFraction (to_double 100)),
                     total' = 100,
                     percentage = minRemainingFraction \<rparr>;
          s3 = reportQuotaToServer ms s
      in if js_le minRemainingFraction (to_double (lowQuotaThreshold (fst s3))) then
           (case reset_hint earliestResetTime (clock (snd s3) + 24 * 60 * 60 * 1000) of
              Inl c \<Rightarrow> (Some result, s3)
            | Inr rtime \<Rightarrow>
                (Some result, snd (reportIssue pf ''quota_exhausted'' (Some rtime) switchOut s3)))
         else (Some result, s3))"

fun checkQuota ::
  "platform \<Rightarrow> token_data fetch_outcome \<Rightarrow> quota_data fetch_outcome \<Rightarrow>
     report_issue_json fetch_outcome \<Rightarrow> state \<Rightarrow> quota_snapshot option \<times> state" where
  "checkQuota pf tokenOut quotaOut switchOut (m, rt) =
     (case lease m of
        None \<Rightarrow> (None, (m, rt))
      | Some l \<Rightarrow>
          (let now = clock rt in
           if now - lastQuotaCheck m < quotaCheckIntervalMs m then (None, (m, rt))
           else
             (let m1 = m\<lparr>lastQuotaCheck := now\<rparr>;
                  rt1 = fetch (TokenReq (refreshToken (account l))) rt
              in case tokenOut of
                   Rejected \<Rightarrow> (None, (m1, rt1))
                 | Response ok st body \<Rightarrow>
                     if \<not> ok then (None, (m1, rt1))
                     else (case body of
                       None \<Rightarrow> (None, (m1, rt1))
                     | Some tokenData \<Rightarrow>
                         (let rt2 = fetch (ModelsReq (access_token tokenData)
                                             (or_else (projectId (account l)) [])) rt1
                          in case quotaOut of
                               Rejected \<Rightarrow> (None, (m1, rt2))
                             | Response ok2 st2 body2 \<Rightarrow>
                                 if \<not> ok2 then (None, (m1, rt2))
                                 else (case body2 of
                                   None \<Rightarrow> (None, (m1, rt2))
                                 | Some quotaData \<Rightarrow>
                                     quota_poll pf quotaData switchOut (m1, rt2)))))))"

section \<open>The timer callbacks\<close>

text \<open>
  The heartbeat callback, \<open>renew().then(() => checkQuota()).catch(log)\<close>: a failed renew
  is logged and the quota check is skipped.
\<close>

definition heartbeatTick ::
  "platform \<Rightarrow> lease_renew_response fetch_outcome \<Rightarrow> token_data fetch_outcome \<Rightarrow>
     quota_data fetch_outcome \<Rightarrow> report_issue_json fetch_outcome \<Rightarrow> state \<Rightarrow> state" where
  "heartbeatTick pf renewOut tokenOut quotaOut switchOut s =
     (case renew pf renewOut s of
        (Inl e, s') \<Rightarrow> s'
      | (Inr u, s') \<Rightarrow> snd (checkQuota pf tokenOut quotaOut switchOut s'))"

text \<open>The idle callback; the promise of \<open>release\<close> is dropped.\<close>

fun idleCheckTick :: "unit fetch_outcome \<Rightarrow> state \<Rightarrow> state" where
  "idleCheckTick out (m, rt) =
     (if idleTimeoutMs m \<le> clock rt - lastActivity m \<and> lease m \<noteq> None
      then snd (release out (m, rt))
      else (m, rt))"

text \<open>What runs when a timer fires, given what the network answers during the run.\<close>

fun run_timer ::
  "platform \<Rightarrow> timer_callback \<Rightarrow> lease_renew_response fetch_outcome \<Rightarrow>
     token_data fetch_outcome \<Rightarrow> quota_data fetch_outcome \<Rightarrow> report_issue_json fetch_outcome \<Rightarrow>
     unit fetch_outcome \<Rightarrow> state \<Rightarrow> state" where
  "run_timer pf HeartbeatTick renewOut tokenOut quotaOut switchOut releaseOut s =
     heartbeatTick pf renewOut tokenOut quotaOut switchOut s"
| "run_timer pf IdleCheckTick renewOut tokenOut quotaOut switchOut releaseOut s =
     idleCheckTick releaseOut s"

section \<open>The shutdown coordinator\<close>

datatype signal = SIGTERM | SIGINT | SIGHUP

datatype process_event = OnSignal signal | BeforeExit

datatype listener = HandleShutdown | BeforeExitHook

datatype shutdown_step = WatchdogStarted int | ReleaseCalled | WatchdogCleared

text \<open>
  The module-level variables of the coordinator and what the process holds for it: the
  listeners registered with \<open>process.on\<close>, in order, and the steps of the shutdown sequences
  that ran. \<open>leaseManagerRef\<close> says whether the reference is set; it then refers to the
  manager of the state the coordinator runs on.
\<close>

record lifecycle =
  isShuttingDown :: bool
  leaseManagerRef :: bool
  listeners :: "(process_event \<times> listener) list"
  steps :: "shutdown_step list"

definition WATCHDOG_TIMEOUT_MS :: int where
  "WATCHDOG_TIMEOUT_MS = 10000"

definition lifecycle_init :: lifecycle where
  "lifecycle_init =
     \<lparr>isShuttingDown = False, leaseManagerRef = False, listeners = [], steps = []\<rparr>"

definition initLifecycle :: "lifecycle \<Rightarrow> lifecycle" where
  "initLifecycle lc =
     (let lc1 = lc\<lparr>leaseManagerRef := True\<rparr> in
      if isShuttingDown lc1 then lc1
      else lc1\<lparr>listeners := listeners lc1 @
             [(OnSignal SIGTERM, HandleShutdown),
              (OnSignal SIGINT, HandleShutdown),
              (OnSignal SIGHUP, HandleShutdown),
              (BeforeExit, BeforeExitHook)]\<rparr>)"

text \<open>
  Both listeners await \<open>release\<close> inside a \<open>try\<close> block, so what it throws is caught and
  only its effect on the state remains.
\<close>

fun handleShutdown :: "unit fetch_outcome \<Rightarrow> lifecycle \<times> state \<Rightarrow> lifecycle \<times> state" where
  "handleShutdown out (lc, s) =
     (if isShuttingDown lc then (lc, s)
      else
        (let lc1 = lc\<lparr>isShuttingDown := True,
                        steps := steps lc @ [WatchdogStarted WATCHDOG_TIMEOUT_MS]\<rparr>;
             r = (if leaseManagerRef lc1
                  then (lc1\<lparr>steps := steps lc1 @ [ReleaseCalled]\<rparr>, snd (release out s))
                  else (lc1, s))
         in ((fst r)\<lparr>steps := steps (fst r) @ [WatchdogCleared]\<rparr>, snd r)))"

fun beforeExitHook :: "unit fetch_outcome \<Rightarrow> lifecycle \<times> state \<Rightarrow> lifecycle \<times> state" where
  "beforeExitHook out (lc, s) =
     (if \<not> isShuttingDown lc \<and> leaseManagerRef lc
      then (lc\<lparr>isShuttingDown := True, steps := steps lc @ [ReleaseCalled]\<rparr>,
            snd (release out s))
      else (lc, s))"

fun run_listener :: "unit fetch_outcome \<Rightarrow> listener \<Rightarrow> lifecycle \<times> state \<Rightarrow> lifecycle \<times> state" where
  "run_listener out HandleShutdown ls = handleShutdown out ls"
| "run_listener out BeforeExitHook ls = beforeExitHook out ls"

text \<open>The process emits an event: every listener registered for it runs, in order.\<close>

definition emit :: "process_event \<Rightarrow> unit fetch_outcome \<Rightarrow> lifecycle \<times> state \<Rightarrow> lifecycle \<times> state" where
  "emit ev out ls =
     foldl (\<lambda>acc l. run_listener out l acc) ls
       (map snd (filter (\<lambda>e. fst e = ev) (listeners (fst ls))))"

section \<open>Example states\<close>

text \<open>
  A platform whose \<open>decryptData\<close> opens two ciphertexts under the key \<open>key\<close> and whose
  \<open>Date\<close> constructor reads two timestamps, a configuration with every default, and the
  state after a first successful \<open>acquire\<close> with a TTL of 1800 seconds.
\<close>

definition ex_platform :: platform where
  "ex_platform =
     \<lparr> decryptData = (\<lambda>c k.
         if c = ''cipher-a'' \<and> k = ''key''
         then Some \<lparr>account_email = ''a@example.com'', refresh_token = ''refresh-a'',
                     project_id = Some ''project-a''\<rparr>
         else if c = ''cipher-b'' \<and> k = ''key''
         then Some \<lparr>account_email = ''b@example.com'', refresh_token = ''refresh-b'',
                     project_id = None\<rparr>
         else None),
       newDate = (\<lambda>s.
         if s = ''2025-01-24T12:30:00.000Z'' then Date 1737721800000
         else if s = ''2025-01-24T13:00:00.000Z'' then Date 1737723600000
         else InvalidDate) \<rparr>"

definition ex_config :: lease_manager_config where
  "ex_config =
     \<lparr> cfg_apiEndpoint = ''https://api.example.com'', cfg_apiKey = ''key'',
       cfg_idleTimeoutMs = None, cfg_quotaCheckIntervalMs = None,
       cfg_lowQuotaThreshold = None, cfg_maxRateLimitWaitMs = None \<rparr>"

definition ex_start :: state where
  "ex_start =
     (new_manager ex_config ''client-1'' 1737720000000,
      \<lparr>clock = 1737720000000, nextTimer = 0, intervals = [], requests = [],
       callbacksRun = []\<rparr>)"

definition ex_lease_a :: lease_acquire_response where
  "ex_lease_a =
     \<lparr> expires_at = ''2025-01-24T12:30:00.000Z'', ttl_seconds = 1800,
       lease_id = 123, account_enc = ''cipher-a'' \<rparr>"

definition ex_lease_b :: lease_acquire_response where
  "ex_lease_b =
     \<lparr> expires_at = ''2025-01-24T13:00:00.000Z'', ttl_seconds = 1800,
       lease_id = 456, account_enc = ''cipher-b'' \<rparr>"

definition ex_held :: state where
  "ex_held = snd (acquire ex_platform (Response True 200 (Some ex_lease_a)) ex_start)"

text \<open>
  A grant whose \<open>expires_at\<close> is not a timestamp, a renewal of that kind, and a grant with
  a TTL of 4294968 seconds, the first whole number whose half exceeds \<open>2 ^ 31 - 1\<close> ms.
\<close>

definition ex_lease_bad_expiry :: lease_acquire_response where
  "ex_lease_bad_expiry =
     \<lparr> expires_at = ''not-a-date'', ttl_seconds = 1800,
       lease_id = 123, account_enc = ''cipher-a'' \<rparr>"

definition ex_renewal_bad_expiry :: lease_renew_response where
  "ex_renewal_bad_expiry = \<lparr>expires_at = ''not-a-date'', ttl_seconds = 600\<rparr>"


section \<open>Predicates used by the properties\<close>

text \<open>
  The ways \<open>acquire\<close> fails before a lease is installed: the fetch rejects (transport
  error or timeout), the status is not a success, the body does not parse, or the account
  payload does not decrypt.
\<close>

definition failed_before_install ::
  "platform \<Rightarrow> string \<Rightarrow> lease_acquire_response fetch_outcome \<Rightarrow> bool" where
  "failed_before_install pf key out =
     (case out of
        Rejected \<Rightarrow> True
      | Response ok st body \<Rightarrow>
          \<not> ok \<or> (case body of
                    None \<Rightarrow> True
                  | Some d \<Rightarrow> decryptData pf (account_enc d) key = None))"


text \<open>The timer table after \<open>clearInterval\<close> on an optional handle.\<close>

definition cleared :: "nat option \<Rightarrow> (nat \<times> interval_timer) list \<Rightarrow> (nat \<times> interval_timer) list" where
  "cleared h ts = (case h of None \<Rightarrow> ts | Some x \<Rightarrow> filter (\<lambda>e. fst e \<noteq> x) ts)"

text \<open>The heartbeat timer that \<open>startHeartbeat\<close> arms for a TTL at a time.\<close>

definition heartbeat_of :: "rat \<Rightarrow> int \<Rightarrow> interval_timer" where
  "heartbeat_of ttl t =
     \<lparr>callback = HeartbeatTick, periodMs = timer_delay (heartbeat_interval ttl), armedAt = t\<rparr>"

definition idle_check_of :: "int \<Rightarrow> interval_timer" where
  "idle_check_of t =
     \<lparr>callback = IdleCheckTick, periodMs = IDLE_CHECK_INTERVAL_MS, armedAt = t\<rparr>"

text \<open>
  The reset hint of \<open>handleRateLimit\<close>: whether the caller gave one (a non-empty string),
  whether a time value is one \<open>toISOString\<close> renders, and the hint sent when one of the two
  holds.
\<close>

definition hint_given :: "string option \<Rightarrow> bool" where
  "hint_given q = (case q of None \<Rightarrow> False | Some x \<Rightarrow> x \<noteq> [])"

definition in_date_range :: "int \<Rightarrow> bool" where
  "in_date_range t = (- 8640000000000000 \<le> t \<and> t \<le> 8640000000000000)"

definition hint_of :: "string option \<Rightarrow> int \<Rightarrow> timestamp_text" where
  "hint_of q t = (case q of None \<Rightarrow> ISOString t | Some x \<Rightarrow> if x = [] then ISOString t else Text x)"

text \<open>A report-issue answer whose account payload does not decrypt.\<close>

definition ex_lease_garbled :: lease_acquire_response where
  "ex_lease_garbled =
     \<lparr> expires_at = ''2025-01-24T13:00:00.000Z'', ttl_seconds = 1800,
       lease_id = 456, account_enc = ''garbled'' \<rparr>"

text \<open>
  A fetch that gives the caller nothing to read: it rejects (transport error or timeout),
  its status is not a success, or its body does not parse.
\<close>

definition no_usable_answer :: "'a fetch_outcome \<Rightarrow> bool" where
  "no_usable_answer out =
     (case out of Rejected \<Rightarrow> True | Response ok st body \<Rightarrow> \<not> ok \<or> body = None)"

definition ex_renewal :: lease_renew_response where
  "ex_renewal = \<lparr>expires_at = ''2025-01-24T13:00:00.000Z'', ttl_seconds = 600\<rparr>"

text \<open>
  The armed timers agree with the manager's two handles: handles are distinct and older
  than the next one, the armed heartbeat timers are exactly the one \<open>heartbeatTimer\<close>
  names, and the armed idle checks exactly the one \<open>idleCheckTimer\<close> names.
\<close>

definition armed :: "timer_callback \<Rightarrow> runtime \<Rightarrow> (nat \<times> interval_timer) list" where
  "armed cb rt = filter (\<lambda>e. callback (snd e) = cb) (intervals rt)"

definition handle_list :: "nat option \<Rightarrow> nat list" where
  "handle_list h = (case h of None \<Rightarrow> [] | Some x \<Rightarrow> [x])"

definition timers_wf :: "state \<Rightarrow> bool" where
  "timers_wf s =
     (distinct (map fst (intervals (snd s))) \<and>
      list_all (\<lambda>e. fst e < nextTimer (snd s)) (intervals (snd s)) \<and>
      map fst (armed HeartbeatTick (snd s)) = handle_list (heartbeatTimer (fst s)) \<and>
      map fst (armed IdleCheckTick (snd s)) = handle_list (idleCheckTimer (fst s)))"

text \<open>Answers of the token and model-availability endpoints used in the examples.\<close>

definition ex_token :: "token_data fetch_outcome" where
  "ex_token = Response True 200 (Some \<lparr>access_token = ''access-1''\<rparr>)"

definition ex_models_high :: "(string \<times> model_info) list" where
  "ex_models_high =
     [(''model-x'', \<lparr>quotaInfo = Some \<lparr>remainingFraction = Some 0.75,
                                        resetTime = Some ''2025-01-24T13:00:00.000Z''\<rparr>\<rparr>)]"

definition ex_quota_high :: "quota_data fetch_outcome" where
  "ex_quota_high = Response True 200 (Some \<lparr>models = Some ex_models_high\<rparr>)"

text \<open>The number of shutdown sequences started, read off the recorded steps.\<close>

definition sequences_started :: "lifecycle \<Rightarrow> nat" where
  "sequences_started lc =
     length (filter (\<lambda>x. case x of WatchdogStarted _ \<Rightarrow> True | _ \<Rightarrow> False) (steps lc))"

text \<open>
  One timestamp is earlier than another, both read as the dates they denote.
\<close>

definition earlier :: "platform \<Rightarrow> string \<Rightarrow> string \<Rightarrow> bool" where
  "earlier pf a b =
     (case newDate pf a of
        InvalidDate \<Rightarrow> False
      | Date x \<Rightarrow> (case newDate pf b of InvalidDate \<Rightarrow> False | Date y \<Rightarrow> x < y))"

text \<open>A response with two entries at the same fraction 0.125, the later reset time first.\<close>

definition ex_models_tie :: "(string \<times> model_info) list" where
  "ex_models_tie =
     [(''model-x'', \<lparr>quotaInfo = Some \<lparr>remainingFraction = Some 0.125,
                                        resetTime = Some ''2025-01-24T13:00:00.000Z''\<rparr>\<rparr>),
      (''model-y'', \<lparr>quotaInfo = Some \<lparr>remainingFraction = Some 0.125,
                                        resetTime = Some ''2025-01-24T12:30:00.000Z''\<rparr>\<rparr>)]"

definition ex_quota_tie :: "quota_data fetch_outcome" where
  "ex_quota_tie = Response True 200 (Some \<lparr>models = Some ex_models_tie\<rparr>)"

section \<open>Doubles that are exact\<close>

text \<open>
  A rational with at most 53 significant bits and an exponent in range is a double, so
  reading it and multiplying into it round nothing. This covers the whole numbers and
  their halves below \<open>2 ^ 53\<close>.
\<close>

lemma pow2_powi: "pow2 k = 2 powi k"
  by (simp add: pow2_def power_int_def power_inverse inverse_eq_divide field_simps)

lemma pow2_pos: "0 < pow2 k"
  by (simp add: pow2_powi)

lemma pow2_add: "pow2 (j + k) = pow2 j * pow2 k"
  by (simp add: pow2_powi power_int_add)

lemma pow2_mono: "pow2 j \<le> pow2 k \<longleftrightarrow> j \<le> k"
proof
  assume "pow2 j \<le> pow2 k"
  show "j \<le> k"
  proof (rule ccontr)
    assume "\<not> j \<le> k"
    then have "pow2 k < pow2 j"
      unfolding pow2_powi by (intro power_int_strict_increasing) simp_all
    with \<open>pow2 j \<le> pow2 k\<close> show False
      by simp
  qed
next
  assume "j \<le> k"
  then show "pow2 j \<le> pow2 k"
    unfolding pow2_powi by (intro power_int_increasing) simp_all
qed

lemma pow2_less: "pow2 j < pow2 k \<longleftrightarrow> j < k"
  using pow2_mono [of k j] by (simp add: not_le [symmetric])

lemma pow2_numerals: "pow2 0 = 1" "pow2 1 = 2" "pow2 (- 1) = 1 / 2" "pow2 53 = 2 ^ 53"
  by (simp_all add: pow2_def)

lemma pow2_nat: "0 \<le> k \<Longrightarrow> pow2 k = of_int (2 ^ nat k)"
  by (simp add: pow2_def)

lemma lg2_bounds: "0 < a \<Longrightarrow> pow2 (lg2 a) \<le> a \<and> a < pow2 (lg2 a + 1)"
proof (induction a rule: lg2.induct)
  case (1 a)
  show ?case
  proof (cases "2 \<le> a")
    case True
    then have e: "lg2 a = lg2 (a / 2) + 1"
      using 1(3) by (subst lg2.simps) simp
    from 1(1) [of] True 1(3) have "pow2 (lg2 (a / 2)) \<le> a / 2 \<and> a / 2 < pow2 (lg2 (a / 2) + 1)"
      by simp
    moreover have "pow2 (lg2 (a / 2) + 1) = pow2 (lg2 (a / 2)) * 2"
      "pow2 (lg2 (a / 2) + 1 + 1) = pow2 (lg2 (a / 2) + 1) * 2"
      by (simp_all only: pow2_add pow2_numerals)
    ultimately show ?thesis
      unfolding e by simp
  next
    case False
    show ?thesis
    proof (cases "a < 1")
      case True
      then have e: "lg2 a = lg2 (a * 2) - 1"
        using 1(3) False by (subst lg2.simps) simp
      from 1(2) True False 1(3)
      have "pow2 (lg2 (a * 2)) \<le> a * 2 \<and> a * 2 < pow2 (lg2 (a * 2) + 1)"
        by simp
      moreover have "pow2 (lg2 (a * 2)) = pow2 (lg2 (a * 2) - 1) * 2"
        "pow2 (lg2 (a * 2) + 1) = pow2 (lg2 (a * 2) - 1 + 1) * 2"
        using pow2_add [of "lg2 (a * 2) - 1" 1] pow2_add [of "lg2 (a * 2)" 1]
        by (simp_all add: pow2_numerals)
      ultimately show ?thesis
        unfolding e by simp
    next
      case f: False
      then have "lg2 a = 0"
        using False 1(3) by (subst lg2.simps) simp
      then show ?thesis
        using f False by (simp add: pow2_numerals)
    qed
  qed
qed

lemma round_half_even_of_int: "round_half_even (of_int n) = n"
  by (simp add: round_half_even_def)

lemma to_double_exact:
  assumes x: "x = of_int n * pow2 k"
    and n: "\<bar>n\<bar> < 2 ^ 53"
    and k: "- 1074 \<le> k" "k \<le> 971"
  shows "to_double x = Fin x"
proof (cases "x = 0")
  case True
  then show ?thesis
    by (simp add: to_double_def)
next
  case False
  define a where "a = \<bar>x\<bar>"
  define e where "e = lg2 a"
  define j where "j = max e (- 1022) - 52"
  have a: "a = of_int \<bar>n\<bar> * pow2 k"
    using pow2_pos [of k] by (simp add: a_def x abs_mult)
  have "0 < a"
    using False by (simp add: a_def)
  from lg2_bounds [OF this] have lo: "pow2 e \<le> a" and hi: "a < pow2 (e + 1)"
    by (simp_all add: e_def)
  have "a < of_int (2 ^ 53) * pow2 k"
    unfolding a using n pow2_pos [of k] by (simp del: of_int_abs)
  also have "\<dots> = pow2 (53 + k)"
    by (simp only: pow2_add pow2_numerals) simp
  finally have "pow2 e < pow2 (53 + k)"
    using lo by simp
  then have ek: "e \<le> 52 + k"
    by (simp add: pow2_less)
  then have e1023: "e \<le> 1023"
    using k by simp
  have jk: "j \<le> k"
    using ek k by (simp add: j_def)
  have "pow2 k = pow2 j * pow2 (k - j)"
    using pow2_add [of j "k - j"] by simp
  then have aq: "a / pow2 j = of_int (\<bar>n\<bar> * 2 ^ nat (k - j))"
    using pow2_pos [of j] jk by (simp add: a pow2_nat)
  have r: "round_half_even (a / pow2 j) = \<bar>n\<bar> * 2 ^ nat (k - j)"
    unfolding aq by (rule round_half_even_of_int)
  have "pow2 (e + 1) \<le> pow2 (j + 53)"
    by (simp add: pow2_mono j_def)
  with hi have "a < pow2 j * pow2 53"
    by (simp add: pow2_add)
  then have "a / pow2 j < pow2 53"
    using pow2_pos [of j] by (simp add: field_simps)
  then have "of_int (\<bar>n\<bar> * 2 ^ nat (k - j)) < (of_int (2 ^ 53) :: rat)"
    unfolding aq by (simp add: pow2_numerals)
  then have "\<bar>n\<bar> * 2 ^ nat (k - j) < 2 ^ 53"
    by (simp only: of_int_less_iff)
  then have r53: "\<bar>n\<bar> * 2 ^ nat (k - j) \<noteq> 2 ^ 53"
    by simp
  have recon: "sgn x * of_int (\<bar>n\<bar> * 2 ^ nat (k - j)) * pow2 j = x"
  proof -
    have "of_int (\<bar>n\<bar> * 2 ^ nat (k - j)) * pow2 j = a"
      using aq pow2_pos [of j] by (simp add: field_simps)
    then have "sgn x * of_int (\<bar>n\<bar> * 2 ^ nat (k - j)) * pow2 j = sgn x * a"
      by (simp add: mult.assoc)
    then show ?thesis
      by (simp add: a_def sgn_mult_abs)
  qed
  show ?thesis
    using False e1023 r r53 recon
    unfolding to_double_def Let_def a_def [symmetric] e_def [symmetric] j_def [symmetric]
    by simp
qed

lemma to_double_of_int: "\<bar>n\<bar> < 2 ^ 53 \<Longrightarrow> to_double (of_int n) = Fin (of_int n)"
  using to_double_exact [of "of_int n" n 0] by (simp add: pow2_numerals)

lemma to_double_half_int: "\<bar>n\<bar> < 2 ^ 53 \<Longrightarrow> to_double (of_int n / 2) = Fin (of_int n / 2)"
  using to_double_exact [of "of_int n / 2" n "- 1"] by (simp add: pow2_numerals)

lemma heartbeat_interval_whole:
  assumes "\<bar>n\<bar> \<le> 4294967296"
  shows "heartbeat_interval (of_int n) = Fin (of_int (n * 500))"
proof -
  have 1: "to_double (of_int n) = Fin (of_int n)"
    using assms by (intro to_double_of_int) simp
  have 2: "to_double DEFAULT_HEARTBEAT_RATIO = Fin (1 / 2)"
    using to_double_half_int [of 1] by (simp add: DEFAULT_HEARTBEAT_RATIO_def)
  have 3: "to_double 1000 = Fin 1000"
    using to_double_of_int [of 1000] by simp
  have "js_mul (Fin (of_int n)) (Fin (1 / 2)) = to_double (of_int n / 2)"
    by simp
  also have "\<dots> = Fin (of_int n / 2)"
    using assms by (intro to_double_half_int) simp
  finally have 4: "js_mul (Fin (of_int n)) (Fin (1 / 2)) = Fin (of_int n / 2)" .
  have "js_mul (Fin (of_int n / 2)) (Fin 1000) = to_double (of_int (n * 500))"
    by (simp add: mult.commute)
  also have "\<dots> = Fin (of_int (n * 500))"
    using assms by (intro to_double_of_int) simp
  finally have 5: "js_mul (Fin (of_int n / 2)) (Fin 1000) = Fin (of_int (n * 500))" .
  show ?thesis
    unfolding heartbeat_interval_def 1 2 3 4 5 js_floor.simps floor_of_int ..
qed


lemma timer_delay_pos: "1 \<le> timer_delay d"
  by (auto simp: timer_delay_def le_floor_iff split: number.splits)

lemma heartbeat_interval_pos_delay:
  "1 \<le> timer_delay (heartbeat_interval ttl)"
  by (rule timer_delay_pos)

text \<open>The doubles the examples meet.\<close>

lemma double_values:
  "to_double 100 = Fin 100"
  "to_double 1000 = Fin 1000"
  "to_double (1 / 2) = Fin (1 / 2)"
  "to_double (3 / 4) = Fin (3 / 4)"
  "to_double (1 / 8) = Fin (1 / 8)"
  "to_double (3 / 2) = Fin (3 / 2)"
  "to_double 75 = Fin 75"
  "to_double 150 = Fin 150"
  "to_double (25 / 2) = Fin (25 / 2)"
  using to_double_of_int [of 100] to_double_of_int [of 1000] to_double_half_int [of 1]
    to_double_exact [of "3 / 4" 3 "- 2"] to_double_exact [of "1 / 8" 1 "- 3"]
    to_double_half_int [of 3] to_double_of_int [of 75] to_double_of_int [of 150]
    to_double_half_int [of 25]
  by (simp_all add: pow2_def)

lemma to_double_fifth: "to_double (1 / 5) = Fin (3602879701896397 / 18014398509481984)"
  by code_simp

lemma heartbeat_values:
  "heartbeat_interval 1800 = Fin 900000"
  "heartbeat_interval 600 = Fin 300000"
  "heartbeat_interval 4294968 = Fin 2147484000"
  using heartbeat_interval_whole [of 1800] heartbeat_interval_whole [of 600]
    heartbeat_interval_whole [of 4294968]
  by simp_all

lemma timer_delay_values:
  "timer_delay (Fin 900000) = 900000"
  "timer_delay (Fin 300000) = 300000"
  "timer_delay (Fin 60000) = 60000"
  "timer_delay (Fin 2147484000) = 1"
  by (simp_all add: timer_delay_def)

section \<open>Evaluation of the example states\<close>

lemmas ex_defs =
  ex_held_def acquire_def ex_start_def ex_platform_def ex_lease_a_def ex_lease_b_def
  ex_config_def new_manager_def install_lease_def fetch_def setInterval_def
  clearInterval_def DEFAULT_HEARTBEAT_RATIO_def IDLE_CHECK_INTERVAL_MS_def
  DEFAULT_IDLE_TIMEOUT_MS_def DEFAULT_QUOTA_CHECK_INTERVAL_MS_def
  DEFAULT_LOW_QUOTA_THRESHOLD_def DEFAULT_MAX_RATE_LIMIT_WAIT_MS_def Let_def numeral_2_eq_2
  heartbeat_values timer_delay_values

lemma ex_held_eq:
  "ex_held =
    (\<lparr>clientId = ''client-1'', apiEndpoint = ''https://api.example.com'', apiKey = ''key'',
      lease = Some \<lparr>leaseId = 123,
                    account = \<lparr>email = ''a@example.com'', refreshToken = ''refresh-a'',
                               projectId = Some ''project-a''\<rparr>,
                    expiresAt = Date 1737721800000\<rparr>,
      heartbeatTimer = Some 0, lastActivity = 1737720000000, idleTimeoutMs = 1200000,
      idleCheckTimer = Some 1, quotaCheckIntervalMs = 120000, lowQuotaThreshold = 1 / 5,
      lastQuotaCheck = 0, maxRateLimitWaitMs = 10000, onReleaseCallback = None\<rparr>,
     \<lparr>clock = 1737720000000, nextTimer = 2,
      intervals =
        [(0, \<lparr>callback = HeartbeatTick, periodMs = 900000, armedAt = 1737720000000\<rparr>),
         (1, \<lparr>callback = IdleCheckTick, periodMs = 60000, armedAt = 1737720000000\<rparr>)],
      requests = [AcquireReq ''client-1''], callbacksRun = []\<rparr>)"
  by (simp add: ex_defs)

section \<open>acquire: failure stores nothing\<close>

lemma toISOString_Inl: "toISOString x = Inl c \<Longrightarrow> c = InvalidTime"
  by (cases x) (auto split: if_splits)

lemma acquire_try_installed:
  assumes "decryptData pf (account_enc d) (apiKey m) = Some dec"
  shows "acquire_try pf (Response True st (Some d)) (m, rt) =
     ((case toISOString (newDate pf (expires_at d)) of
         Inl c \<Rightarrow> Inl c
       | Inr x \<Rightarrow> Inr (install_lease d dec pf)),
      startIdleCheck (updateActivity (startHeartbeat (ttl_seconds d)
        (m\<lparr>lease := Some (install_lease d dec pf)\<rparr>, fetch (AcquireReq (clientId m)) rt))))"
  using assms
  by (simp add: Let_def install_lease_def split: sum.splits)

lemma acquire_failed_before_install:
  assumes "failed_before_install pf (apiKey m) out"
  shows "\<exists>c. acquire pf out (m, rt) =
           (Inl (AcquireFailure c), (m, fetch (AcquireReq (clientId m)) rt))"
  using assms
  by (auto simp: failed_before_install_def acquire_def Let_def
           split: fetch_outcome.splits option.splits)

text \<open>
  Every error of \<open>acquire\<close> is one of the failures above, or the \<open>RangeError\<close> that the
  closing log line raises when the expiry received does not parse as a date.
\<close>

lemma acquire_error_cases:
  assumes "acquire pf out (m, rt) = (Inl e, s')"
  shows "failed_before_install pf (apiKey m) out \<or> e = AcquireFailure InvalidTime"
proof (cases "failed_before_install pf (apiKey m) out")
  case True
  then show ?thesis by simp
next
  case False
  then obtain st d dec where out: "out = Response True st (Some d)"
    and dec: "decryptData pf (account_enc d) (apiKey m) = Some dec"
    by (auto simp: failed_before_install_def split: fetch_outcome.splits option.splits)
  from assms show ?thesis
    unfolding out acquire_def acquire_try_installed [OF dec]
    by (auto split: sum.splits dest: toISOString_Inl)
qed

text \<open>
  When \<open>acquire\<close> fails by a non-success status, a timeout or transport error, an
  unreadable body or a decrypt failure, it raises \<open>AcquireFailure\<close>, the manager is what it
  was (so with no lease before, \<open>hasActiveLease\<close> stays false and \<open>getAccount\<close> and
  \<open>getLease\<close> stay empty), and the table of armed timers is what it was: neither the
  heartbeat nor the idle timer is started.
\<close>

lemma acquire_early_failure_stores_nothing:
  assumes "failed_before_install pf (apiKey m) out"
  shows "case acquire pf out (m, rt) of (r, (m', rt')) \<Rightarrow>
           (\<exists>c. r = Inl (AcquireFailure c)) \<and> m' = m \<and> intervals rt' = intervals rt \<and>
           heartbeatTimer m' = heartbeatTimer m \<and> idleCheckTimer m' = idleCheckTimer m \<and>
           (\<not> hasActiveLease m \<longrightarrow>
              \<not> hasActiveLease m' \<and> getAccount m' = None \<and> getLease m' = None)"
proof -
  from acquire_failed_before_install [OF assms]
  obtain c where "acquire pf out (m, rt) =
      (Inl (AcquireFailure c), (m, fetch (AcquireReq (clientId m)) rt))"
    by blast
  then show ?thesis
    by (simp add: fetch_def hasActiveLease_def getAccount_def getLease_def)
qed

text \<open>
  C5. The claim fails for a grant whose \<open>expires_at\<close> does not parse. From the manager
  without a lease, the broker answers 200 with lease 123, an account that decrypts, a TTL
  of 1800 seconds and \<open>expires_at = not-a-date\<close>. The lease is stored with an invalid
  date, both timers are started, and then the log line's \<open>toISOString\<close> throws inside the
  \<open>try\<close> block: \<open>acquire\<close> raises \<open>AcquireFailure\<close> although the lease is held and the
  heartbeat and idle timers are armed.
\<close>

theorem acquire_bad_expiry_fails_after_install:
  "\<not> hasActiveLease (fst ex_start) \<and> intervals (snd ex_start) = [] \<and>
   (case acquire ex_platform (Response True 200 (Some ex_lease_bad_expiry)) ex_start of
      (r, (m', rt')) \<Rightarrow>
        r = Inl (AcquireFailure InvalidTime) \<and>
        hasActiveLease m' \<and>
        getLease m' =
          Some \<lparr>leaseId = 123,
                account = \<lparr>email = ''a@example.com'', refreshToken = ''refresh-a'',
                           projectId = Some ''project-a''\<rparr>,
                expiresAt = InvalidDate\<rparr> \<and>
        getAccount m' =
          Some \<lparr>email = ''a@example.com'', refreshToken = ''refresh-a'',
                projectId = Some ''project-a''\<rparr> \<and>
        heartbeatTimer m' = Some 0 \<and> idleCheckTimer m' = Some 1 \<and>
        intervals rt' =
          [(0, \<lparr>callback = HeartbeatTick, periodMs = 900000, armedAt = 1737720000000\<rparr>),
           (1, \<lparr>callback = IdleCheckTick, periodMs = 60000, armedAt = 1737720000000\<rparr>)])"
  by (simp add: ex_defs ex_lease_bad_expiry_def hasActiveLease_def getLease_def
        getAccount_def)

section \<open>The timer operations as state updates\<close>

lemma stopHeartbeat_eq:
  "stopHeartbeat (m, rt) =
     (m\<lparr>heartbeatTimer := None\<rparr>,
      rt\<lparr>intervals := cleared (heartbeatTimer m) (intervals rt)\<rparr>)"
  by (cases m) (simp add: cleared_def clearInterval_def split: option.splits)

lemma stopIdleCheck_eq:
  "stopIdleCheck (m, rt) =
     (m\<lparr>idleCheckTimer := None\<rparr>,
      rt\<lparr>intervals := cleared (idleCheckTimer m) (intervals rt)\<rparr>)"
  by (cases m) (simp add: cleared_def clearInterval_def split: option.splits)

lemma startHeartbeat_eq:
  "startHeartbeat ttl (m, rt) =
     (m\<lparr>heartbeatTimer := Some (nextTimer rt)\<rparr>,
      rt\<lparr>nextTimer := Suc (nextTimer rt),
         intervals := cleared (heartbeatTimer m) (intervals rt) @
                        [(nextTimer rt, heartbeat_of ttl (clock rt))]\<rparr>)"
  by (simp add: stopHeartbeat_eq setInterval_def heartbeat_of_def del: stopHeartbeat.simps)

lemma startIdleCheck_eq:
  "startIdleCheck (m, rt) =
     (m\<lparr>idleCheckTimer := Some (nextTimer rt)\<rparr>,
      rt\<lparr>nextTimer := Suc (nextTimer rt),
         intervals := cleared (idleCheckTimer m) (intervals rt) @
                        [(nextTimer rt, idle_check_of (clock rt))]\<rparr>)"
  by (simp add: stopIdleCheck_eq setInterval_def idle_check_of_def IDLE_CHECK_INTERVAL_MS_def
        timer_delay_def del: stopIdleCheck.simps)

lemmas timer_eqs = stopHeartbeat_eq stopIdleCheck_eq startHeartbeat_eq startIdleCheck_eq

declare stopHeartbeat.simps [simp del] stopIdleCheck.simps [simp del]
  startHeartbeat.simps [simp del] startIdleCheck.simps [simp del]

section \<open>release\<close>

lemma stopHeartbeat_keeps:
  "lease (fst (stopHeartbeat s)) = lease (fst s)"
  "clientId (fst (stopHeartbeat s)) = clientId (fst s)"
  "onReleaseCallback (fst (stopHeartbeat s)) = onReleaseCallback (fst s)"
  "idleCheckTimer (fst (stopHeartbeat s)) = idleCheckTimer (fst s)"
  "requests (snd (stopHeartbeat s)) = requests (snd s)"
  "callbacksRun (snd (stopHeartbeat s)) = callbacksRun (snd s)"
  "clock (snd (stopHeartbeat s)) = clock (snd s)"
  "heartbeatTimer (fst (stopHeartbeat s)) = None"
  "intervals (snd (stopHeartbeat s)) = cleared (heartbeatTimer (fst s)) (intervals (snd s))"
  by (cases s; simp add: stopHeartbeat_eq)+

lemma stopIdleCheck_keeps:
  "lease (fst (stopIdleCheck s)) = lease (fst s)"
  "clientId (fst (stopIdleCheck s)) = clientId (fst s)"
  "onReleaseCallback (fst (stopIdleCheck s)) = onReleaseCallback (fst s)"
  "heartbeatTimer (fst (stopIdleCheck s)) = heartbeatTimer (fst s)"
  "requests (snd (stopIdleCheck s)) = requests (snd s)"
  "callbacksRun (snd (stopIdleCheck s)) = callbacksRun (snd s)"
  "clock (snd (stopIdleCheck s)) = clock (snd s)"
  "idleCheckTimer (fst (stopIdleCheck s)) = None"
  "intervals (snd (stopIdleCheck s)) = cleared (idleCheckTimer (fst s)) (intervals (snd s))"
  by (cases s; simp add: stopIdleCheck_eq)+

lemma release_no_lease:
  assumes "lease (fst s) = None"
  shows "release out s = (Inr (), stopIdleCheck (stopHeartbeat s))"
  using assms
  by (cases "stopIdleCheck (stopHeartbeat s)")
     (use stopIdleCheck_keeps(1) [of "stopHeartbeat s"] stopHeartbeat_keeps(1) [of s]
      in \<open>simp add: release_def\<close>)

lemma release_start_held:
  assumes "lease (fst s) = Some l"
  shows "release_start s =
     (True, ((fst (stopIdleCheck (stopHeartbeat s)))\<lparr>lease := None\<rparr>,
             fetch (ReleaseReq (leaseId l) (clientId (fst s))) (snd (stopIdleCheck (stopHeartbeat s)))))"
  using assms
  by (cases "stopIdleCheck (stopHeartbeat s)")
     (use stopIdleCheck_keeps(1,2) [of "stopHeartbeat s"] stopHeartbeat_keeps(1,2) [of s]
      in \<open>simp\<close>)

lemma release_start_no_lease:
  assumes "lease (fst s) = None"
  shows "release_start s = (False, stopIdleCheck (stopHeartbeat s))"
  using assms
  by (cases "stopIdleCheck (stopHeartbeat s)")
     (use stopIdleCheck_keeps(1,2) [of "stopHeartbeat s"] stopHeartbeat_keeps(1,2) [of s]
      in \<open>simp\<close>)

lemma release_finish_keeps:
  "fst (snd (release_finish out s)) = fst s"
  "requests (snd (snd (release_finish out s))) = requests (snd s)"
  "intervals (snd (snd (release_finish out s))) = intervals (snd s)"
  "callbacksRun (snd (snd (release_finish out s))) =
     (case onReleaseCallback (fst s) of None \<Rightarrow> callbacksRun (snd s)
      | Some cb \<Rightarrow> callbacksRun (snd s) @ [cb])"
  "fst (release_finish out s) =
     (case onReleaseCallback (fst s) of None \<Rightarrow> Inr () | Some cb \<Rightarrow> call cb)"
  by (cases s; simp split: option.splits)+






lemma release_callbacks:
  "callbacksRun (snd (snd (release out s))) =
     (case lease (fst s) of
        None \<Rightarrow> callbacksRun (snd s)
      | Some l \<Rightarrow> (case onReleaseCallback (fst s) of
                     None \<Rightarrow> callbacksRun (snd s)
                   | Some cb \<Rightarrow> callbacksRun (snd s) @ [cb]))"
proof (cases "lease (fst s)")
  case None
  then show ?thesis
    by (simp add: release_no_lease stopIdleCheck_keeps stopHeartbeat_keeps)
next
  case (Some l)
  then show ?thesis
    by (simp add: release_def release_start_held release_finish_keeps stopIdleCheck_keeps stopHeartbeat_keeps fetch_def del: release_start.simps release_finish.simps split: option.splits)
qed




text \<open>
  C10. With a callback registered, \<open>release\<close> runs it exactly when a lease was held on
  entry: once then, and not at all when there was no lease.
\<close>

theorem release_callback_iff_lease_held:
  assumes "onReleaseCallback (fst s) = Some cb"
  shows "callbacksRun (snd (snd (release out s))) =
           (if hasActiveLease (fst s) then callbacksRun (snd s) @ [cb] else callbacksRun (snd s))"
  using assms by (simp add: release_callbacks hasActiveLease_def split: option.splits)

theorem release_callback_iff_lease_held_witness:
  "onReleaseCallback (onRelease (Returns 7) (fst ex_held)) = Some (Returns 7) \<and>
   hasActiveLease (onRelease (Returns 7) (fst ex_held)) \<and>
   callbacksRun (snd (snd (release Rejected (onRelease (Returns 7) (fst ex_held), snd ex_held)))) = [Returns 7] \<and>
   \<not> hasActiveLease (onRelease (Returns 7) (fst ex_start)) \<and>
   callbacksRun (snd (snd (release Rejected (onRelease (Returns 7) (fst ex_start), snd ex_start)))) = []"
proof -
  have h: "onReleaseCallback (fst (onRelease (Returns 7) (fst ex_held), snd ex_held)) = Some (Returns 7)"
    "onReleaseCallback (fst (onRelease (Returns 7) (fst ex_start), snd ex_start)) = Some (Returns 7)"
    by (simp_all add: onRelease_def)
  show ?thesis
    using release_callback_iff_lease_held [OF h(1), of Rejected]
      release_callback_iff_lease_held [OF h(2), of Rejected]
    by (simp add: onRelease_def hasActiveLease_def ex_held_eq)
       (simp add: ex_start_def new_manager_def)
qed

section \<open>reportIssue\<close>

lemma reportIssue_no_lease:
  "lease m = None \<Longrightarrow> reportIssue pf reason rtime out (m, rt) = (Inl NoActiveLease, (m, rt))"
  by (simp add: reportIssue_def)

text \<open>What a failed \<open>reportIssue\<close> leaves behind, for each way it fails.\<close>

lemma reportIssue_failure_effects:
  assumes "reportIssue pf reason rtime out (m, rt) = (Inl e, (m', rt'))"
  shows "lease m' = lease m \<and> idleCheckTimer m' = idleCheckTimer m \<and>
         (e \<noteq> SwitchFailure DecryptError \<longrightarrow> m' = m \<and> intervals rt' = intervals rt) \<and>
         (e = SwitchFailure DecryptError \<longrightarrow>
            m' = m\<lparr>heartbeatTimer := None\<rparr> \<and>
            intervals rt' = cleared (heartbeatTimer m) (intervals rt))"
  using assms
  by (auto simp: reportIssue_def Let_def timer_eqs fetch_def
           split: option.splits fetch_outcome.splits if_splits sum.splits prod.splits)

text \<open>
  C1. At a lease held with its heartbeat running, a report-issue answer that is well formed
  but whose account payload does not decrypt makes \<open>reportIssue\<close> raise \<open>SwitchFailure\<close>
  with the lease and the idle timer as they were, and with the heartbeat timer cancelled:
  the old heartbeat is stopped before the payload is decrypted.
\<close>

theorem reportIssue_decrypt_failure_stops_heartbeat:
  "heartbeatTimer (fst ex_held) = Some 0 \<and> map fst (intervals (snd ex_held)) = [0, 1] \<and>
   (case reportIssue ex_platform ''quota_exhausted'' None
           (Response True 200 (Some (Plain ex_lease_garbled))) ex_held of
      (r, (m', rt')) \<Rightarrow>
        r = Inl (SwitchFailure DecryptError) \<and> lease m' = lease (fst ex_held) \<and>
        idleCheckTimer m' = idleCheckTimer (fst ex_held) \<and>
        heartbeatTimer m' = None \<and> map fst (intervals rt') = [1])"
  by (simp add: ex_held_eq reportIssue_def Let_def timer_eqs fetch_def cleared_def
        ex_platform_def ex_lease_garbled_def no_new_account_def)

lemma reportIssue_requests:
  assumes "lease m = Some l"
  shows "requests (snd (snd (reportIssue pf reason rtime out (m, rt)))) =
           requests rt @ [ReportIssueReq (leaseId l) (clientId m) reason
                            (if truthy rtime then rtime else None)]"
  using assms
  by (auto simp: reportIssue_def Let_def timer_eqs fetch_def
           split: option.splits fetch_outcome.splits if_splits sum.splits prod.splits)

lemma reportIssue_success:
  assumes "reportIssue pf reason rtime out (m, rt) = (Inr nl, (m', rt'))"
  shows "lease m' = Some nl"
  using assms
  by (auto simp: reportIssue_def Let_def timer_eqs fetch_def
           split: option.splits fetch_outcome.splits if_splits sum.splits prod.splits)

lemma reportIssue_failure_lease:
  assumes "reportIssue pf reason rtime out (m, rt) = (Inl e, (m', rt'))"
  shows "lease m' = lease m"
  using reportIssue_failure_effects [OF assms] by simp

section \<open>handleRateLimit\<close>

lemma reset_hint_truthy: "reset_hint given t = Inr h \<Longrightarrow> truthy (Some h)"
  by (auto simp: reset_hint_def split: option.splits if_splits)

lemma reset_hint_cases:
  "reset_hint q t =
     (if hint_given q \<or> in_date_range t then Inr (hint_of q t) else Inl InvalidTime)"
  by (auto simp: reset_hint_def hint_given_def in_date_range_def hint_of_def
        split: option.splits)

text \<open>
  The claim as worded fails for a wait so long that \<open>now + waitMs\<close> is past the last date:
  with lease 123 held, no reset time given and a wait of 8640000000000000 ms, above the
  maximum, no report-issue request is sent and the decision is \<open>wait\<close>, although the broker
  would have granted the switch; with a reset time given the same call switches.
\<close>

theorem handleRateLimit_long_wait_no_switch:
  "lease (fst ex_held) \<noteq> None \<and>
   maxRateLimitWaitMs (fst ex_held) < 8640000000000000 \<and>
   fst (handleRateLimit ex_platform 8640000000000000 None None
          (Response True 200 (Some (NewLease ex_lease_b))) ex_held) =
     \<lparr>action = wait, waitMs = Some 8640000000000000, newAccount = None\<rparr> \<and>
   requests (snd (snd (handleRateLimit ex_platform 8640000000000000 None None
          (Response True 200 (Some (NewLease ex_lease_b))) ex_held))) =
     requests (snd ex_held) \<and>
   fst (handleRateLimit ex_platform 8640000000000000 None (Some ''2025-01-24T13:00:00.000Z'')
          (Response True 200 (Some (NewLease ex_lease_b))) ex_held) =
     \<lparr>action = switch, waitMs = None,
      newAccount = Some \<lparr>email = ''b@example.com'', refreshToken = ''refresh-b'',
                         projectId = None\<rparr>\<rparr>"
  by (simp add: ex_held_eq handleRateLimit_def reset_hint_def wait_decision_def
        switch_decision_def reportIssue_def Let_def timer_eqs fetch_def cleared_def
        ex_platform_def ex_lease_b_def no_new_account_def install_lease_def
        heartbeat_values timer_delay_values heartbeat_of_def idle_check_of_def
        IDLE_CHECK_INTERVAL_MS_def)

text \<open>
  C3, as it holds of the code. With a lease held: a wait at or below the configured
  maximum yields the decision \<open>wait\<close> with that wait, sends nothing and keeps the lease. A
  longer wait, when a reset time was given or \<open>now + waitMs\<close> is a date that can be rendered,
  sends one report-issue request with that reset hint, and the decision is \<open>switch\<close> with
  the new lease's account when \<open>reportIssue\<close> succeeds and \<open>wait\<close> with the same wait when
  it fails. A longer wait with no reset time given and \<open>now + waitMs\<close> outside the range of
  dates sends nothing, keeps the lease and yields \<open>wait\<close>. \<open>shouldSwitchOnRateLimit\<close> holds
  exactly for waits above the maximum.
\<close>

theorem handleRateLimit_wait_or_switch:
  assumes "lease m = Some l"
  shows "(ms \<le> maxRateLimitWaitMs m \<longrightarrow>
            fst (handleRateLimit pf ms reason qrt out (m, rt)) = wait_decision ms \<and>
            requests (snd (snd (handleRateLimit pf ms reason qrt out (m, rt)))) = requests rt \<and>
            lease (fst (snd (handleRateLimit pf ms reason qrt out (m, rt)))) = lease m) \<and>
         (maxRateLimitWaitMs m < ms \<and> (hint_given qrt \<or> in_date_range (clock rt + ms)) \<longrightarrow>
            requests (snd (snd (handleRateLimit pf ms reason qrt out (m, rt)))) =
              requests rt @ [ReportIssueReq (leaseId l) (clientId m)
                               (''rate_limit:'' @ or_else reason ''unknown'')
                               (Some (hint_of qrt (clock rt + ms)))] \<and>
            (case fst (reportIssue pf (''rate_limit:'' @ or_else reason ''unknown'')
                         (Some (hint_of qrt (clock rt + ms))) out
                         (m\<lparr>lastActivity := clock rt\<rparr>, rt)) of
               Inr nl \<Rightarrow>
                 fst (handleRateLimit pf ms reason qrt out (m, rt)) = switch_decision (account nl) \<and>
                 getAccount (fst (snd (handleRateLimit pf ms reason qrt out (m, rt)))) =
                   Some (account nl)
             | Inl e \<Rightarrow>
                 fst (handleRateLimit pf ms reason qrt out (m, rt)) = wait_decision ms \<and>
                 lease (fst (snd (handleRateLimit pf ms reason qrt out (m, rt)))) = lease m)) \<and>
         (maxRateLimitWaitMs m < ms \<and> \<not> hint_given qrt \<and> \<not> in_date_range (clock rt + ms) \<longrightarrow>
            fst (handleRateLimit pf ms reason qrt out (m, rt)) = wait_decision ms \<and>
            requests (snd (snd (handleRateLimit pf ms reason qrt out (m, rt)))) = requests rt \<and>
            lease (fst (snd (handleRateLimit pf ms reason qrt out (m, rt)))) = lease m) \<and>
         (shouldSwitchOnRateLimit m ms \<longleftrightarrow> maxRateLimitWaitMs m < ms) \<and>
         (shouldSwitchOnRateLimit m ms \<longleftrightarrow> \<not> ms \<le> maxRateLimitWaitMs m)"
proof -
  let ?s1 = "(m\<lparr>lastActivity := clock rt\<rparr>, rt)"
  let ?rsn = "''rate_limit:'' @ or_else reason ''unknown''"
  let ?hint = "hint_of qrt (clock rt + ms)"
  have low: "ms \<le> maxRateLimitWaitMs m \<Longrightarrow>
      handleRateLimit pf ms reason qrt out (m, rt) = (wait_decision ms, ?s1)"
    by (simp add: handleRateLimit_def)
  have none: "handleRateLimit pf ms reason qrt out (m, rt) = (wait_decision ms, ?s1)"
    if "maxRateLimitWaitMs m < ms" "\<not> hint_given qrt" "\<not> in_date_range (clock rt + ms)"
    using that by (simp add: handleRateLimit_def reset_hint_cases)
  have high: "handleRateLimit pf ms reason qrt out (m, rt) =
      (case reportIssue pf ?rsn (Some ?hint) out ?s1 of
         (Inl e, s2) \<Rightarrow> (wait_decision ms, s2)
       | (Inr newLease, s2) \<Rightarrow> (switch_decision (account newLease), s2))"
    if "maxRateLimitWaitMs m < ms" "hint_given qrt \<or> in_date_range (clock rt + ms)"
    using that by (simp add: handleRateLimit_def reset_hint_cases)
  have sent: "requests (snd (snd (reportIssue pf ?rsn (Some ?hint) out ?s1))) =
      requests rt @ [ReportIssueReq (leaseId l) (clientId m) ?rsn (Some ?hint)]"
    if h: "hint_given qrt \<or> in_date_range (clock rt + ms)"
  proof -
    from h have "reset_hint qrt (clock rt + ms) = Inr ?hint"
      by (simp add: reset_hint_cases)
    from reset_hint_truthy [OF this]
      reportIssue_requests [of "m\<lparr>lastActivity := clock rt\<rparr>" l pf ?rsn "Some ?hint" out rt]
      assms
    show ?thesis
      by simp
  qed
  have part2: "requests (snd (snd (handleRateLimit pf ms reason qrt out (m, rt)))) =
              requests rt @ [ReportIssueReq (leaseId l) (clientId m) ?rsn (Some ?hint)] \<and>
            (case fst (reportIssue pf ?rsn (Some ?hint) out ?s1) of
               Inr nl \<Rightarrow>
                 fst (handleRateLimit pf ms reason qrt out (m, rt)) = switch_decision (account nl) \<and>
                 getAccount (fst (snd (handleRateLimit pf ms reason qrt out (m, rt)))) =
                   Some (account nl)
             | Inl e \<Rightarrow>
                 fst (handleRateLimit pf ms reason qrt out (m, rt)) = wait_decision ms \<and>
                 lease (fst (snd (handleRateLimit pf ms reason qrt out (m, rt)))) = lease m)"
    if h: "maxRateLimitWaitMs m < ms" "hint_given qrt \<or> in_date_range (clock rt + ms)"
  proof (cases "reportIssue pf ?rsn (Some ?hint) out ?s1")
    case (fields r m' rt')
    show ?thesis
    proof (cases r)
      case (Inl e)
      with fields reportIssue_failure_lease [of pf ?rsn "Some ?hint" out _ rt e m' rt']
        sent [OF h(2)] high [OF h]
      show ?thesis by simp
    next
      case (Inr nl)
      with fields reportIssue_success [of pf ?rsn "Some ?hint" out _ rt nl m' rt']
        sent [OF h(2)] high [OF h]
      show ?thesis by (simp add: getAccount_def)
    qed
  qed
  have part3: "fst (handleRateLimit pf ms reason qrt out (m, rt)) = wait_decision ms \<and>
            requests (snd (snd (handleRateLimit pf ms reason qrt out (m, rt)))) = requests rt \<and>
            lease (fst (snd (handleRateLimit pf ms reason qrt out (m, rt)))) = lease m"
    if "maxRateLimitWaitMs m < ms" "\<not> hint_given qrt" "\<not> in_date_range (clock rt + ms)"
    using none [OF that] by simp
  have part1: "fst (handleRateLimit pf ms reason qrt out (m, rt)) = wait_decision ms \<and>
            requests (snd (snd (handleRateLimit pf ms reason qrt out (m, rt)))) = requests rt \<and>
            lease (fst (snd (handleRateLimit pf ms reason qrt out (m, rt)))) = lease m"
    if "ms \<le> maxRateLimitWaitMs m"
    using low [OF that] by simp
  have sw: "shouldSwitchOnRateLimit m ms \<longleftrightarrow> maxRateLimitWaitMs m < ms"
    by (simp add: shouldSwitchOnRateLimit_def)
  from part1 part2 part3 sw show ?thesis
    by (simp only: not_le) blast
qed

theorem handleRateLimit_wait_or_switch_witness:
  "lease (fst ex_held) \<noteq> None \<and>
   (5000::int) \<le> maxRateLimitWaitMs (fst ex_held) \<and>
   maxRateLimitWaitMs (fst ex_held) < (60000::int) \<and>
   in_date_range (clock (snd ex_held) + 60000) \<and>
   \<not> hint_given None \<and> \<not> in_date_range (clock (snd ex_held) + 8640000000000000) \<and>
   fst (handleRateLimit ex_platform 5000 None None Rejected (fst ex_held, snd ex_held)) =
     \<lparr>action = wait, waitMs = Some 5000, newAccount = None\<rparr> \<and>
   fst (handleRateLimit ex_platform 60000 None None
          (Response True 200 (Some (NewLease ex_lease_b))) (fst ex_held, snd ex_held)) =
     \<lparr>action = switch, waitMs = None,
      newAccount = Some \<lparr>email = ''b@example.com'', refreshToken = ''refresh-b'',
                         projectId = None\<rparr>\<rparr> \<and>
   fst (handleRateLimit ex_platform 60000 None None Rejected (fst ex_held, snd ex_held)) =
     \<lparr>action = wait, waitMs = Some 60000, newAccount = None\<rparr> \<and>
   fst (handleRateLimit ex_platform 8640000000000000 None None
          (Response True 200 (Some (NewLease ex_lease_b))) (fst ex_held, snd ex_held)) =
     \<lparr>action = wait, waitMs = Some 8640000000000000, newAccount = None\<rparr> \<and>
   shouldSwitchOnRateLimit (fst ex_held) 60000 \<and> \<not> shouldSwitchOnRateLimit (fst ex_held) 5000"
proof -
  have l: "lease (fst ex_held) =
      Some \<lparr>leaseId = 123,
            account = \<lparr>email = ''a@example.com'', refreshToken = ''refresh-a'',
                       projectId = Some ''project-a''\<rparr>,
            expiresAt = Date 1737721800000\<rparr>"
    by (simp add: ex_held_eq)
  have rng: "in_date_range (clock (snd ex_held) + 60000)"
    "\<not> in_date_range (clock (snd ex_held) + 8640000000000000)"
    "\<not> hint_given None"
    by (simp_all add: ex_held_eq in_date_range_def hint_given_def)
  have hint: "hint_of None (clock (snd ex_held) + 60000) = ISOString 1737720060000"
    by (simp add: ex_held_eq hint_of_def)
  note low = handleRateLimit_wait_or_switch [OF l, where ms = 5000 and pf = ex_platform
      and reason = None and qrt = None and out = Rejected and rt = "snd ex_held"]
  note ok = handleRateLimit_wait_or_switch [OF l, where ms = 60000 and pf = ex_platform
      and reason = None and qrt = None and out = "Response True 200 (Some (NewLease ex_lease_b))"
      and rt = "snd ex_held"]
  note bad = handleRateLimit_wait_or_switch [OF l, where ms = 60000 and pf = ex_platform
      and reason = None and qrt = None and out = Rejected and rt = "snd ex_held"]
  note far = handleRateLimit_wait_or_switch [OF l, where ms = 8640000000000000
      and pf = ex_platform and reason = None and qrt = None
      and out = "Response True 200 (Some (NewLease ex_lease_b))" and rt = "snd ex_held"]
  have bounds: "(5000::int) \<le> maxRateLimitWaitMs (fst ex_held)"
    "maxRateLimitWaitMs (fst ex_held) < (60000::int)"
    "maxRateLimitWaitMs (fst ex_held) < (8640000000000000::int)"
    by (simp_all add: ex_held_eq)
  have r_ok: "fst (reportIssue ex_platform (''rate_limit:'' @ or_else None ''unknown'')
        (Some (hint_of None (clock (snd ex_held) + 60000)))
        (Response True 200 (Some (NewLease ex_lease_b)))
        ((fst ex_held)\<lparr>lastActivity := clock (snd ex_held)\<rparr>, snd ex_held)) =
      Inr \<lparr>leaseId = 456,
           account = \<lparr>email = ''b@example.com'', refreshToken = ''refresh-b'',
                      projectId = None\<rparr>,
           expiresAt = Date 1737723600000\<rparr>"
    unfolding hint
    by (simp add: ex_held_eq reportIssue_def Let_def timer_eqs fetch_def cleared_def
          ex_platform_def ex_lease_b_def no_new_account_def install_lease_def)
  have r_bad: "fst (reportIssue ex_platform (''rate_limit:'' @ or_else None ''unknown'')
        (Some (hint_of None (clock (snd ex_held) + 60000))) Rejected
        ((fst ex_held)\<lparr>lastActivity := clock (snd ex_held)\<rparr>, snd ex_held)) =
      Inl (SwitchFailure FetchRejected)"
    unfolding hint
    by (simp add: ex_held_eq reportIssue_def Let_def fetch_def)
  from low bounds have 1: "fst (handleRateLimit ex_platform 5000 None None Rejected
      (fst ex_held, snd ex_held)) = wait_decision 5000"
    by blast
  from ok bounds rng r_ok have 2: "fst (handleRateLimit ex_platform 60000 None None
          (Response True 200 (Some (NewLease ex_lease_b))) (fst ex_held, snd ex_held)) =
      switch_decision \<lparr>email = ''b@example.com'', refreshToken = ''refresh-b'',
                         projectId = None\<rparr>"
    by simp
  from bad bounds rng r_bad have 3: "fst (handleRateLimit ex_platform 60000 None None Rejected
      (fst ex_held, snd ex_held)) = wait_decision 60000"
    by simp
  from far bounds rng have 5: "fst (handleRateLimit ex_platform 8640000000000000 None None
          (Response True 200 (Some (NewLease ex_lease_b))) (fst ex_held, snd ex_held)) =
      wait_decision 8640000000000000"
    by blast
  from low ok bounds have 4: "shouldSwitchOnRateLimit (fst ex_held) 60000"
    "\<not> shouldSwitchOnRateLimit (fst ex_held) 5000"
    by blast+
  from 1 2 3 4 5 l rng bounds show ?thesis
    by (simp add: wait_decision_def switch_decision_def)
qed

section \<open>renew\<close>

lemma renew_no_lease:
  "lease m = None \<Longrightarrow> renew pf out (m, rt) = (Inl NoActiveLease, (m, rt))"
  by (simp add: renew_def)

lemma renew_failed:
  assumes "lease m = Some l" "no_usable_answer out"
  shows "\<exists>c. renew pf out (m, rt) =
           (Inl (RenewFailure c), (m, fetch (RenewReq (leaseId l) (clientId m)) rt))"
  using assms
  by (auto simp: renew_def no_usable_answer_def Let_def split: fetch_outcome.splits)

lemma renew_answered:
  assumes "lease m = Some l"
  shows "renew pf (Response True st (Some d)) (m, rt) =
     ((case toISOString (newDate pf (expires_at d)) of
         Inl c \<Rightarrow> Inl (RenewFailure c)
       | Inr x \<Rightarrow> Inr ()),
      (m\<lparr>lease := Some (l\<lparr>expiresAt := newDate pf (expires_at d)\<rparr>),
         heartbeatTimer := Some (nextTimer rt)\<rparr>,
       rt\<lparr>requests := requests rt @ [RenewReq (leaseId l) (clientId m)],
          nextTimer := Suc (nextTimer rt),
          intervals := cleared (heartbeatTimer m) (intervals rt) @
                         [(nextTimer rt, heartbeat_of (ttl_seconds d) (clock rt))]\<rparr>))"
  using assms
  by (simp add: renew_def Let_def timer_eqs fetch_def cleared_def split: sum.splits)

lemma cleared_removes:
  "h \<notin> fst ` set (cleared (Some h) ts)"
  by (auto simp: cleared_def)

text \<open>
  Without a lease \<open>renew\<close> raises \<open>NoActiveLease\<close> and changes nothing. With a lease
  and an answered request, the expiry becomes the returned one and the heartbeat is
  restarted for the new TTL: the old timer is no longer armed and a fresh one is, and the
  call returns normally when the returned expiry is a date that can be rendered. When the
  request fails (rejection, non-success status, unreadable body) \<open>renew\<close> raises
  \<open>RenewFailure\<close> and the manager, with its lease and expiry, and the timers are unchanged.
\<close>

lemma renew_listed_cases:
  "(lease m = None \<longrightarrow> renew pf out (m, rt) = (Inl NoActiveLease, (m, rt))) \<and>
   (lease m = Some l \<and> out = Response True st (Some d) \<longrightarrow>
      (case renew pf out (m, rt) of (r, (m', rt')) \<Rightarrow>
         lease m' = Some (l\<lparr>expiresAt := newDate pf (expires_at d)\<rparr>) \<and>
         heartbeatTimer m' = Some (nextTimer rt) \<and>
         intervals rt' = cleared (heartbeatTimer m) (intervals rt) @
                           [(nextTimer rt, heartbeat_of (ttl_seconds d) (clock rt))] \<and>
         (\<forall>h. heartbeatTimer m = Some h \<and> h < nextTimer rt \<longrightarrow> h \<notin> fst ` set (intervals rt')) \<and>
         (\<forall>x. toISOString (newDate pf (expires_at d)) = Inr x \<longrightarrow> r = Inr ()))) \<and>
   (lease m = Some l \<and> no_usable_answer out \<longrightarrow>
      (case renew pf out (m, rt) of (r, (m', rt')) \<Rightarrow>
         (\<exists>c. r = Inl (RenewFailure c)) \<and> m' = m \<and> lease m' = Some l \<and>
         intervals rt' = intervals rt))"
proof -
  have ok: "lease m = Some l \<and> out = Response True st (Some d) \<longrightarrow>
      (case renew pf out (m, rt) of (r, (m', rt')) \<Rightarrow>
         lease m' = Some (l\<lparr>expiresAt := newDate pf (expires_at d)\<rparr>) \<and>
         heartbeatTimer m' = Some (nextTimer rt) \<and>
         intervals rt' = cleared (heartbeatTimer m) (intervals rt) @
                           [(nextTimer rt, heartbeat_of (ttl_seconds d) (clock rt))] \<and>
         (\<forall>h. heartbeatTimer m = Some h \<and> h < nextTimer rt \<longrightarrow> h \<notin> fst ` set (intervals rt')) \<and>
         (\<forall>x. toISOString (newDate pf (expires_at d)) = Inr x \<longrightarrow> r = Inr ()))"
    using cleared_removes [of _ "intervals rt"]
    by (auto simp: renew_answered)
  have bad: "lease m = Some l \<and> no_usable_answer out \<longrightarrow>
      (case renew pf out (m, rt) of (r, (m', rt')) \<Rightarrow>
         (\<exists>c. r = Inl (RenewFailure c)) \<and> m' = m \<and> lease m' = Some l \<and>
         intervals rt' = intervals rt)"
    using renew_failed [of m l out pf rt] by (auto simp: fetch_def)
  from ok bad show ?thesis
    by (simp add: renew_no_lease)
qed

text \<open>
  C4. The claim fails for a renewal whose \<open>expires_at\<close> does not parse. With lease 123
  held, expiring at 12:30 with heartbeat timer 0, the broker answers 200 with a TTL of 600
  seconds and \<open>expires_at = not-a-date\<close>. The expiry is overwritten with the invalid date
  and the heartbeat is replaced by timer 2, and then the log line's \<open>toISOString\<close> throws
  inside the \<open>try\<close> block: \<open>renew\<close> raises \<open>RenewFailure\<close> although the lease's expiry is
  no longer what it was.
\<close>

theorem renew_bad_expiry_fails_after_update:
  "map_option expiresAt (lease (fst ex_held)) = Some (Date 1737721800000) \<and>
   heartbeatTimer (fst ex_held) = Some 0 \<and>
   (case renew ex_platform (Response True 200 (Some ex_renewal_bad_expiry)) ex_held of
      (r, (m', rt')) \<Rightarrow>
        r = Inl (RenewFailure InvalidTime) \<and>
        lease m' =
          Some \<lparr>leaseId = 123,
                account = \<lparr>email = ''a@example.com'', refreshToken = ''refresh-a'',
                           projectId = Some ''project-a''\<rparr>,
                expiresAt = InvalidDate\<rparr> \<and>
        heartbeatTimer m' = Some 2 \<and>
        intervals rt' =
          [(1, \<lparr>callback = IdleCheckTick, periodMs = 60000, armedAt = 1737720000000\<rparr>),
           (2, \<lparr>callback = HeartbeatTick, periodMs = 300000, armedAt = 1737720000000\<rparr>)])"
  by (simp add: ex_held_eq renew_def Let_def timer_eqs fetch_def cleared_def
        ex_renewal_bad_expiry_def ex_platform_def heartbeat_of_def heartbeat_values
        timer_delay_values eval_nat_numeral)

section \<open>checkQuota: when it polls\<close>

lemma reportIssue_keeps:
  "lastQuotaCheck (fst (snd (reportIssue pf reason rtime out (m, rt)))) = lastQuotaCheck m"
  "quotaCheckIntervalMs (fst (snd (reportIssue pf reason rtime out (m, rt)))) =
     quotaCheckIntervalMs m"
  "clock (snd (snd (reportIssue pf reason rtime out (m, rt)))) = clock rt"
  by (auto simp: reportIssue_def Let_def timer_eqs fetch_def
           split: option.splits fetch_outcome.splits if_splits sum.splits prod.splits)

lemma reportQuotaToServer_eq:
  "reportQuotaToServer ms (m, rt) =
     (m, rt\<lparr>requests := requests rt @
              (case lease m of
                 None \<Rightarrow> []
               | Some l \<Rightarrow> if ms = [] then []
                          else [QuotaReportReq (email (account l)) (map quota_entry ms)])\<rparr>)"
  by (simp add: fetch_def Let_def split: option.splits)

lemma quota_poll_keeps:
  "lastQuotaCheck (fst (snd (quota_poll pf qd sw (m, rt)))) = lastQuotaCheck m"
  "quotaCheckIntervalMs (fst (snd (quota_poll pf qd sw (m, rt)))) = quotaCheckIntervalMs m"
  "clock (snd (snd (quota_poll pf qd sw (m, rt)))) = clock rt"
  "fst (quota_poll pf qd sw (m, rt)) \<noteq> None"
  by (simp_all add: quota_poll_def Let_def reportQuotaToServer_eq reportIssue_keeps
        del: reportQuotaToServer.simps split: sum.splits)

lemma quota_poll_requests:
  assumes "lease m = Some l"
  shows "\<exists>rest. requests (snd (snd (quota_poll pf qd sw (m, rt)))) = requests rt @ rest"
  using assms
  by (simp add: quota_poll_def Let_def reportQuotaToServer_eq reportIssue_requests
        del: reportQuotaToServer.simps split: sum.splits)

lemma checkQuota_skips:
  assumes "lease m = None \<or> clock rt - lastQuotaCheck m < quotaCheckIntervalMs m"
  shows "checkQuota pf tokenOut quotaOut sw (m, rt) = (None, (m, rt))"
  using assms by (auto simp: Let_def split: option.splits)

lemma checkQuota_failed:
  assumes "no_usable_answer tokenOut \<or> no_usable_answer quotaOut"
  shows "fst (checkQuota pf tokenOut quotaOut sw (m, rt)) = None"
  using assms
  by (auto simp: no_usable_answer_def Let_def split: option.splits fetch_outcome.splits)

lemma checkQuota_polls:
  assumes "lease m = Some l" "quotaCheckIntervalMs m \<le> clock rt - lastQuotaCheck m"
  shows "lastQuotaCheck (fst (snd (checkQuota pf tokenOut quotaOut sw (m, rt)))) = clock rt"
    and "quotaCheckIntervalMs (fst (snd (checkQuota pf tokenOut quotaOut sw (m, rt)))) =
           quotaCheckIntervalMs m"
    and "clock (snd (snd (checkQuota pf tokenOut quotaOut sw (m, rt)))) = clock rt"
    and "\<exists>rest. requests (snd (snd (checkQuota pf tokenOut quotaOut sw (m, rt)))) =
           requests rt @ TokenReq (refreshToken (account l)) # rest"
proof -
  let ?m1 = "m\<lparr>lastQuotaCheck := clock rt\<rparr>"
  let ?rt1 = "fetch (TokenReq (refreshToken (account l))) rt"
  have poll: "\<exists>rest. requests (snd (snd (quota_poll pf qd sw (?m1, fetch r ?rt1)))) =
      requests rt @ TokenReq (refreshToken (account l)) # rest" for qd r
    using quota_poll_requests [of ?m1 l pf qd sw "fetch r ?rt1"] assms(1)
    by (auto simp: fetch_def)
  show "lastQuotaCheck (fst (snd (checkQuota pf tokenOut quotaOut sw (m, rt)))) = clock rt"
    using assms
    by (auto simp: Let_def quota_poll_keeps split: option.splits fetch_outcome.splits)
  show "quotaCheckIntervalMs (fst (snd (checkQuota pf tokenOut quotaOut sw (m, rt)))) =
           quotaCheckIntervalMs m"
    using assms
    by (auto simp: Let_def quota_poll_keeps split: option.splits fetch_outcome.splits)
  show "clock (snd (snd (checkQuota pf tokenOut quotaOut sw (m, rt)))) = clock rt"
    using assms
    by (auto simp: Let_def quota_poll_keeps fetch_def split: option.splits fetch_outcome.splits)
  show "\<exists>rest. requests (snd (snd (checkQuota pf tokenOut quotaOut sw (m, rt)))) =
           requests rt @ TokenReq (refreshToken (account l)) # rest"
    using assms poll
    by (auto simp: Let_def fetch_def split: option.splits fetch_outcome.splits)
qed

lemma ex_poll_eq:
  "checkQuota ex_platform ex_token ex_quota_high Rejected (fst ex_held, snd ex_held) =
     (Some \<lparr>remaining = Fin 75, total' = 100, percentage = Fin (3 / 4)\<rparr>,
      ((fst ex_held)\<lparr>lastQuotaCheck := 1737720000000\<rparr>,
       (snd ex_held)\<lparr>requests :=
          [AcquireReq ''client-1'', TokenReq ''refresh-a'', ModelsReq ''access-1'' ''project-a'',
           QuotaReportReq ''a@example.com''
             [\<lparr>model_name = ''model-x'', percentage_reported = Fin 75,
               reset_time = Some ''2025-01-24T13:00:00.000Z''\<rparr>]]\<rparr>))"
  by (simp add: ex_held_eq ex_token_def ex_quota_high_def ex_models_high_def Let_def
        quota_poll_def scan_models_def quota_step_def fraction_of_def resetTime_of_def
        reportQuotaToServer_eq quota_entry_def fetch_def double_values to_double_fifth
        del: reportQuotaToServer.simps)

lemma ex_poll_state:
  "checkQuota ex_platform ex_token ex_quota_high Rejected ex_held =
     (Some \<lparr>remaining = Fin 75, total' = 100, percentage = Fin (3 / 4)\<rparr>,
      ((fst ex_held)\<lparr>lastQuotaCheck := 1737720000000\<rparr>,
       (snd ex_held)\<lparr>requests :=
          [AcquireReq ''client-1'', TokenReq ''refresh-a'', ModelsReq ''access-1'' ''project-a'',
           QuotaReportReq ''a@example.com''
             [\<lparr>model_name = ''model-x'', percentage_reported = Fin 75,
               reset_time = Some ''2025-01-24T13:00:00.000Z''\<rparr>]]\<rparr>))"
  using ex_poll_eq by simp

text \<open>
  The claim as worded fails after a failed attempt. A poll at time 1737720000000 returns a
  snapshot. An attempt 120000 ms later, when the interval of 120000 ms has elapsed, fails at
  the token request and returns nothing. A call 60000 ms after that, 180000 ms after the
  last successful poll and with the lease still held, returns nothing and sends nothing:
  the failed attempt was recorded as the last check.
\<close>

theorem checkQuota_failed_attempt_delays_poll:
  "clock (snd ex_held) = 1737720000000 \<and> quotaCheckIntervalMs (fst ex_held) = 120000 \<and>
   fst (checkQuota ex_platform ex_token ex_quota_high Rejected ex_held) =
     Some \<lparr>remaining = Fin 75, total' = 100, percentage = Fin (3 / 4)\<rparr> \<and>
   fst (checkQuota ex_platform Rejected ex_quota_high Rejected
          (advance 120000 (snd (checkQuota ex_platform ex_token ex_quota_high Rejected
             ex_held)))) = None \<and>
   (let s = advance 60000 (snd (checkQuota ex_platform Rejected ex_quota_high Rejected
              (advance 120000 (snd (checkQuota ex_platform ex_token ex_quota_high Rejected
                 ex_held)))))
    in clock (snd s) = 1737720000000 + 180000 \<and> hasActiveLease (fst s) \<and>
       quotaCheckIntervalMs (fst s) \<le> clock (snd s) - 1737720000000 \<and>
       checkQuota ex_platform ex_token ex_quota_high Rejected s = (None, s))"
  by (simp add: ex_poll_state advance_def)
     (simp add: ex_held_eq Let_def fetch_def hasActiveLease_def)

text \<open>
  C8, as it holds of the code. \<open>checkQuota\<close> returns nothing and does nothing without a
  lease, and likewise when called within the minimum interval of the last recorded check.
  The check is recorded before the poll is attempted: after any call that got past the
  two tests, whether it returned a snapshot or failed, a call less than the interval later
  returns nothing and sends nothing. When the token request or the quota request fails
  (rejection, non-success status or unreadable body) the result is empty, never an error.
  With a lease held and the interval elapsed since the last recorded check the call polls:
  it records the time and sends the token request.
\<close>

theorem checkQuota_gated_by_last_attempt:
  "(lease m = None \<longrightarrow> checkQuota pf tokenOut quotaOut sw (m, rt) = (None, (m, rt))) \<and>
   (clock rt - lastQuotaCheck m < quotaCheckIntervalMs m \<longrightarrow>
      checkQuota pf tokenOut quotaOut sw (m, rt) = (None, (m, rt))) \<and>
   (lease m = Some l \<and> quotaCheckIntervalMs m \<le> clock rt - lastQuotaCheck m \<and>
      checkQuota pf tokenOut quotaOut sw (m, rt) = (r, sa) \<and>
      0 \<le> d \<and> d < quotaCheckIntervalMs m \<longrightarrow>
      checkQuota pf tokenOut' quotaOut' sw' (advance d sa) = (None, advance d sa)) \<and>
   (checkQuota pf tokenOut quotaOut sw (m, rt) = (Some snap, sa) \<and>
      0 \<le> d \<and> d < quotaCheckIntervalMs m \<longrightarrow>
      checkQuota pf tokenOut' quotaOut' sw' (advance d sa) = (None, advance d sa)) \<and>
   (no_usable_answer tokenOut \<or> no_usable_answer quotaOut \<longrightarrow>
      fst (checkQuota pf tokenOut quotaOut sw (m, rt)) = None) \<and>
   (lease m = Some l \<and> quotaCheckIntervalMs m \<le> clock rt - lastQuotaCheck m \<longrightarrow>
      lastQuotaCheck (fst (snd (checkQuota pf tokenOut quotaOut sw (m, rt)))) = clock rt \<and>
      (\<exists>rest. requests (snd (snd (checkQuota pf tokenOut quotaOut sw (m, rt)))) =
         requests rt @ TokenReq (refreshToken (account l)) # rest))"
proof -
  have after: "checkQuota pf tokenOut' quotaOut' sw' (advance d sa) = (None, advance d sa)"
    if l': "lease m = Some l'"
      and el: "quotaCheckIntervalMs m \<le> clock rt - lastQuotaCheck m"
      and r: "checkQuota pf tokenOut quotaOut sw (m, rt) = (r, sa)"
      and d: "0 \<le> d" "d < quotaCheckIntervalMs m" for l' r
  proof -
    from checkQuota_polls(1-3) [OF l' el, of pf tokenOut quotaOut sw] r
    have "lastQuotaCheck (fst sa) = clock rt" "quotaCheckIntervalMs (fst sa) = quotaCheckIntervalMs m"
      "clock (snd sa) = clock rt"
      by simp_all
    with d have "clock (snd (advance d sa)) - lastQuotaCheck (fst (advance d sa)) <
        quotaCheckIntervalMs (fst (advance d sa))"
      by (simp add: advance_def)
    from checkQuota_skips [OF disjI2, OF this, of pf tokenOut' quotaOut' sw']
    show ?thesis by simp
  qed
  have again: "checkQuota pf tokenOut' quotaOut' sw' (advance d sa) = (None, advance d sa)"
    if r: "checkQuota pf tokenOut quotaOut sw (m, rt) = (Some snap, sa)"
      and d: "0 \<le> d" "d < quotaCheckIntervalMs m"
  proof -
    from r checkQuota_skips [of m rt pf tokenOut quotaOut sw]
    obtain l' where l': "lease m = Some l'"
      and el: "quotaCheckIntervalMs m \<le> clock rt - lastQuotaCheck m"
      by (cases "lease m") (auto simp: not_less [symmetric])
    from after [OF l' el r d] show ?thesis .
  qed
  from after [of l r] again checkQuota_skips [of m rt pf tokenOut quotaOut sw]
    checkQuota_failed [of tokenOut quotaOut pf sw m rt]
    checkQuota_polls(1,4) [of m l rt pf tokenOut quotaOut sw]
  show ?thesis
    by blast
qed

theorem checkQuota_gated_by_last_attempt_witness:
  "lease (fst ex_start) = None \<and>
   checkQuota ex_platform ex_token ex_quota_high Rejected (fst ex_start, snd ex_start) =
     (None, (fst ex_start, snd ex_start)) \<and>
   fst (checkQuota ex_platform ex_token ex_quota_high Rejected (fst ex_held, snd ex_held)) =
     Some \<lparr>remaining = Fin 75, total' = 100, percentage = Fin (3 / 4)\<rparr> \<and>
   (0::int) \<le> 60000 \<and> 60000 < quotaCheckIntervalMs (fst ex_held) \<and>
   fst (checkQuota ex_platform ex_token ex_quota_high Rejected
          (advance 60000 (snd (checkQuota ex_platform ex_token ex_quota_high Rejected
             (fst ex_held, snd ex_held))))) = None \<and>
   no_usable_answer (Rejected :: token_data fetch_outcome) \<and>
   fst (checkQuota ex_platform Rejected ex_quota_high Rejected (fst ex_held, snd ex_held)) = None \<and>
   fst (checkQuota ex_platform ex_token ex_quota_high Rejected
          (advance 60000 (snd (checkQuota ex_platform Rejected ex_quota_high Rejected
             (fst ex_held, snd ex_held))))) = None \<and>
   quotaCheckIntervalMs (fst ex_held) \<le> clock (snd ex_held) - lastQuotaCheck (fst ex_held) \<and>
   lastQuotaCheck (fst (snd (checkQuota ex_platform ex_token ex_quota_high Rejected
      (fst ex_held, snd ex_held)))) = clock (snd ex_held)"
proof -
  have n: "lease (fst ex_start) = None"
    by (simp add: ex_start_def new_manager_def)
  have l: "lease (fst ex_held) =
      Some \<lparr>leaseId = 123,
            account = \<lparr>email = ''a@example.com'', refreshToken = ''refresh-a'',
                       projectId = Some ''project-a''\<rparr>,
            expiresAt = Date 1737721800000\<rparr>"
    by (simp add: ex_held_eq)
  have iv: "(0::int) \<le> 60000" "60000 < quotaCheckIntervalMs (fst ex_held)"
    "quotaCheckIntervalMs (fst ex_held) \<le> clock (snd ex_held) - lastQuotaCheck (fst ex_held)"
    by (simp_all add: ex_held_eq)
  have rej: "no_usable_answer (Rejected :: token_data fetch_outcome)"
    by (simp add: no_usable_answer_def)
  note none = checkQuota_gated_by_last_attempt [where m = "fst ex_start" and rt = "snd ex_start"
      and pf = ex_platform and tokenOut = ex_token and quotaOut = ex_quota_high
      and sw = Rejected]
  note held = checkQuota_gated_by_last_attempt [where m = "fst ex_held" and rt = "snd ex_held"
      and pf = ex_platform and tokenOut = ex_token and quotaOut = ex_quota_high
      and sw = Rejected and d = 60000
      and snap = "\<lparr>remaining = Fin 75, total' = 100, percentage = Fin (3 / 4)\<rparr>"
      and sa = "snd (checkQuota ex_platform ex_token ex_quota_high Rejected
             (fst ex_held, snd ex_held))"
      and tokenOut' = ex_token and quotaOut' = ex_quota_high and sw' = Rejected
      and l = "\<lparr>leaseId = 123,
            account = \<lparr>email = ''a@example.com'', refreshToken = ''refresh-a'',
                       projectId = Some ''project-a''\<rparr>,
            expiresAt = Date 1737721800000\<rparr>"]
  note fail = checkQuota_gated_by_last_attempt [where m = "fst ex_held" and rt = "snd ex_held"
      and pf = ex_platform and tokenOut = Rejected and quotaOut = ex_quota_high
      and sw = Rejected and d = 60000
      and r = "fst (checkQuota ex_platform Rejected ex_quota_high Rejected
             (fst ex_held, snd ex_held))"
      and sa = "snd (checkQuota ex_platform Rejected ex_quota_high Rejected
             (fst ex_held, snd ex_held))"
      and tokenOut' = ex_token and quotaOut' = ex_quota_high and sw' = Rejected
      and l = "\<lparr>leaseId = 123,
            account = \<lparr>email = ''a@example.com'', refreshToken = ''refresh-a'',
                       projectId = Some ''project-a''\<rparr>,
            expiresAt = Date 1737721800000\<rparr>"]
  have poll: "checkQuota ex_platform ex_token ex_quota_high Rejected (fst ex_held, snd ex_held) =
      (Some \<lparr>remaining = Fin 75, total' = 100, percentage = Fin (3 / 4)\<rparr>,
       snd (checkQuota ex_platform ex_token ex_quota_high Rejected (fst ex_held, snd ex_held)))"
    by (simp only: ex_poll_eq snd_conv)
  have attempt: "checkQuota ex_platform Rejected ex_quota_high Rejected (fst ex_held, snd ex_held) =
      (fst (checkQuota ex_platform Rejected ex_quota_high Rejected (fst ex_held, snd ex_held)),
       snd (checkQuota ex_platform Rejected ex_quota_high Rejected (fst ex_held, snd ex_held)))"
    by (simp only: prod.collapse)
  from none n have 1: "checkQuota ex_platform ex_token ex_quota_high Rejected
      (fst ex_start, snd ex_start) = (None, (fst ex_start, snd ex_start))"
    by blast
  from held poll iv(1,2) have 2: "checkQuota ex_platform ex_token ex_quota_high Rejected
          (advance 60000 (snd (checkQuota ex_platform ex_token ex_quota_high Rejected
             (fst ex_held, snd ex_held)))) =
      (None, advance 60000 (snd (checkQuota ex_platform ex_token ex_quota_high Rejected
             (fst ex_held, snd ex_held))))"
    by blast
  from fail rej have 3: "fst (checkQuota ex_platform Rejected ex_quota_high Rejected
      (fst ex_held, snd ex_held)) = None"
    by blast
  from fail l iv attempt have 7: "checkQuota ex_platform ex_token ex_quota_high Rejected
          (advance 60000 (snd (checkQuota ex_platform Rejected ex_quota_high Rejected
             (fst ex_held, snd ex_held)))) =
      (None, advance 60000 (snd (checkQuota ex_platform Rejected ex_quota_high Rejected
             (fst ex_held, snd ex_held))))"
    by blast
  from held l iv(3) have 4: "lastQuotaCheck (fst (snd (checkQuota ex_platform ex_token
      ex_quota_high Rejected (fst ex_held, snd ex_held)))) = clock (snd ex_held)"
    by blast
  have 5: "fst (checkQuota ex_platform ex_token ex_quota_high Rejected (fst ex_held, snd ex_held)) =
     Some \<lparr>remaining = Fin 75, total' = 100, percentage = Fin (3 / 4)\<rparr>"
    by (simp only: ex_poll_eq fst_conv)
  from 2 have 6: "fst (checkQuota ex_platform ex_token ex_quota_high Rejected
          (advance 60000 (snd (checkQuota ex_platform ex_token ex_quota_high Rejected
             (fst ex_held, snd ex_held))))) = None"
    by (simp only: fst_conv)
  from 7 have 8: "fst (checkQuota ex_platform ex_token ex_quota_high Rejected
          (advance 60000 (snd (checkQuota ex_platform Rejected ex_quota_high Rejected
             (fst ex_held, snd ex_held))))) = None"
    by (simp only: fst_conv)
  from n 1 5 iv 6 rej 3 4 8 show ?thesis
    by blast
qed

section \<open>The timer callbacks\<close>




text \<open>
  An idle tick releases the lease exactly when one is held and the manager has been idle
  for the idle timeout, and does nothing otherwise.
\<close>

lemma idle_tick_releases:
  "run_timer pf IdleCheckTick renewOut tokenOut quotaOut sw relOut (m, rt) =
     (if idleTimeoutMs m \<le> clock rt - lastActivity m \<and> lease m \<noteq> None
      then snd (release relOut (m, rt)) else (m, rt))"
  by simp

section \<open>The timers the manager holds\<close>

lemma filter_singleton:
  assumes "filter P ts = [e]"
  shows "e \<in> set ts" and "P e"
proof -
  have "e \<in> set (filter P ts)"
    using assms by simp
  then show "e \<in> set ts" and "P e"
    by simp_all
qed

lemma filter_cleared_own:
  assumes "map fst (filter P ts) = handle_list ho"
  shows "filter P (cleared ho ts) = []"
proof (cases ho)
  case None
  with assms show ?thesis by (simp add: cleared_def handle_list_def)
next
  case (Some h)
  with assms have "fst ` set (filter P ts) = {h}"
    by (metis handle_list_def option.simps(5) list.set_map list.simps(15) empty_set)
  then have "\<forall>e \<in> set (filter P ts). fst e = h"
    by blast
  then show ?thesis
    using Some by (auto simp: cleared_def filter_empty_conv)
qed

lemma filter_cleared_other:
  assumes "distinct (map fst ts)" "map fst (filter P ts) = handle_list ho"
    and "\<And>e. Q e \<Longrightarrow> \<not> P e"
  shows "filter Q (cleared ho ts) = filter Q ts"
proof (cases ho)
  case None
  then show ?thesis by (simp add: cleared_def)
next
  case (Some h)
  with assms(2) obtain e where e: "filter P ts = [e]" "fst e = h"
    by (auto simp: handle_list_def)
  then have "e \<in> set ts" "P e"
    by (blast dest: filter_singleton)+
  have "fst e' \<noteq> h" if "e' \<in> set ts" "Q e'" for e'
  proof
    assume "fst e' = h"
    with assms(1) \<open>e \<in> set ts\<close> that(1) e(2) have "e' = e"
      by (auto simp: distinct_map dest: inj_onD)
    with that(2) assms(3) \<open>P e\<close> show False by blast
  qed
  then have "filter (\<lambda>x. fst x \<noteq> h \<and> Q x) ts = filter Q ts"
    by (intro filter_cong) auto
  then show ?thesis
    using Some by (simp add: cleared_def)
qed

lemma distinct_cleared: "distinct (map fst ts) \<Longrightarrow> distinct (map fst (cleared ho ts))"
  by (auto simp: cleared_def distinct_map_filter split: option.splits)

lemma list_all_cleared: "list_all P ts \<Longrightarrow> list_all P (cleared ho ts)"
  by (auto simp: cleared_def list_all_iff split: option.splits)

lemma timers_wf_startHeartbeat:
  assumes "timers_wf (m, rt)"
  shows "timers_wf (startHeartbeat ttl (m, rt))"
    and "armed HeartbeatTick (snd (startHeartbeat ttl (m, rt))) =
           [(nextTimer rt, heartbeat_of ttl (clock rt))]"
proof -
  let ?ts = "intervals rt"
  from assms have d: "distinct (map fst ?ts)"
    and b: "list_all (\<lambda>e. fst e < nextTimer rt) ?ts"
    and hb: "map fst (filter (\<lambda>e. callback (snd e) = HeartbeatTick) ?ts) = handle_list (heartbeatTimer m)"
    and ic: "map fst (filter (\<lambda>e. callback (snd e) = IdleCheckTick) ?ts) = handle_list (idleCheckTimer m)"
    by (simp_all add: timers_wf_def armed_def)
  have fresh: "nextTimer rt \<notin> fst ` set (cleared (heartbeatTimer m) ?ts)"
    using list_all_cleared [OF b, of "heartbeatTimer m"] by (auto simp: list_all_iff)
  have 1: "filter (\<lambda>e. callback (snd e) = HeartbeatTick) (cleared (heartbeatTimer m) ?ts) = []"
    by (rule filter_cleared_own [OF hb])
  have 2: "filter (\<lambda>e. callback (snd e) = IdleCheckTick) (cleared (heartbeatTimer m) ?ts) =
      filter (\<lambda>e. callback (snd e) = IdleCheckTick) ?ts"
    by (rule filter_cleared_other [OF d hb]) simp
  show "armed HeartbeatTick (snd (startHeartbeat ttl (m, rt))) =
           [(nextTimer rt, heartbeat_of ttl (clock rt))]"
    using 1 by (simp add: startHeartbeat_eq armed_def heartbeat_of_def)
  show "timers_wf (startHeartbeat ttl (m, rt))"
    using 1 2 ic fresh distinct_cleared [OF d, of "heartbeatTimer m"]
      list_all_cleared [OF b, of "heartbeatTimer m"]
    by (auto simp: startHeartbeat_eq timers_wf_def armed_def heartbeat_of_def handle_list_def
          list_all_iff less_Suc_eq)
qed

lemma timers_wf_startIdleCheck:
  assumes "timers_wf (m, rt)"
  shows "timers_wf (startIdleCheck (m, rt))"
    and "armed HeartbeatTick (snd (startIdleCheck (m, rt))) = armed HeartbeatTick rt"
proof -
  let ?ts = "intervals rt"
  from assms have d: "distinct (map fst ?ts)"
    and b: "list_all (\<lambda>e. fst e < nextTimer rt) ?ts"
    and hb: "map fst (filter (\<lambda>e. callback (snd e) = HeartbeatTick) ?ts) = handle_list (heartbeatTimer m)"
    and ic: "map fst (filter (\<lambda>e. callback (snd e) = IdleCheckTick) ?ts) = handle_list (idleCheckTimer m)"
    by (simp_all add: timers_wf_def armed_def)
  have fresh: "nextTimer rt \<notin> fst ` set (cleared (idleCheckTimer m) ?ts)"
    using list_all_cleared [OF b, of "idleCheckTimer m"] by (auto simp: list_all_iff)
  have 1: "filter (\<lambda>e. callback (snd e) = IdleCheckTick) (cleared (idleCheckTimer m) ?ts) = []"
    by (rule filter_cleared_own [OF ic])
  have 2: "filter (\<lambda>e. callback (snd e) = HeartbeatTick) (cleared (idleCheckTimer m) ?ts) =
      filter (\<lambda>e. callback (snd e) = HeartbeatTick) ?ts"
    by (rule filter_cleared_other [OF d ic]) simp
  show "armed HeartbeatTick (snd (startIdleCheck (m, rt))) = armed HeartbeatTick rt"
    using 2 by (simp add: startIdleCheck_eq armed_def idle_check_of_def)
  show "timers_wf (startIdleCheck (m, rt))"
    using 1 2 hb fresh distinct_cleared [OF d, of "idleCheckTimer m"]
      list_all_cleared [OF b, of "idleCheckTimer m"]
    by (auto simp: startIdleCheck_eq timers_wf_def armed_def idle_check_of_def handle_list_def
          list_all_iff less_Suc_eq)
qed

lemma timers_wf_stopHeartbeat:
  assumes "timers_wf (m, rt)"
  shows "timers_wf (stopHeartbeat (m, rt))"
proof -
  let ?ts = "intervals rt"
  from assms have d: "distinct (map fst ?ts)"
    and b: "list_all (\<lambda>e. fst e < nextTimer rt) ?ts"
    and hb: "map fst (filter (\<lambda>e. callback (snd e) = HeartbeatTick) ?ts) = handle_list (heartbeatTimer m)"
    and ic: "map fst (filter (\<lambda>e. callback (snd e) = IdleCheckTick) ?ts) = handle_list (idleCheckTimer m)"
    by (simp_all add: timers_wf_def armed_def)
  have 1: "filter (\<lambda>e. callback (snd e) = HeartbeatTick) (cleared (heartbeatTimer m) ?ts) = []"
    by (rule filter_cleared_own [OF hb])
  have 2: "filter (\<lambda>e. callback (snd e) = IdleCheckTick) (cleared (heartbeatTimer m) ?ts) =
      filter (\<lambda>e. callback (snd e) = IdleCheckTick) ?ts"
    by (rule filter_cleared_other [OF d hb]) simp
  show ?thesis
    using 1 2 ic distinct_cleared [OF d, of "heartbeatTimer m"]
      list_all_cleared [OF b, of "heartbeatTimer m"]
    by (simp add: stopHeartbeat_eq timers_wf_def armed_def handle_list_def)
qed

lemma timers_wf_stopIdleCheck:
  assumes "timers_wf (m, rt)"
  shows "timers_wf (stopIdleCheck (m, rt))"
proof -
  let ?ts = "intervals rt"
  from assms have d: "distinct (map fst ?ts)"
    and b: "list_all (\<lambda>e. fst e < nextTimer rt) ?ts"
    and hb: "map fst (filter (\<lambda>e. callback (snd e) = HeartbeatTick) ?ts) = handle_list (heartbeatTimer m)"
    and ic: "map fst (filter (\<lambda>e. callback (snd e) = IdleCheckTick) ?ts) = handle_list (idleCheckTimer m)"
    by (simp_all add: timers_wf_def armed_def)
  have 1: "filter (\<lambda>e. callback (snd e) = IdleCheckTick) (cleared (idleCheckTimer m) ?ts) = []"
    by (rule filter_cleared_own [OF ic])
  have 2: "filter (\<lambda>e. callback (snd e) = HeartbeatTick) (cleared (idleCheckTimer m) ?ts) =
      filter (\<lambda>e. callback (snd e) = HeartbeatTick) ?ts"
    by (rule filter_cleared_other [OF d ic]) simp
  show ?thesis
    using 1 2 hb distinct_cleared [OF d, of "idleCheckTimer m"]
      list_all_cleared [OF b, of "idleCheckTimer m"]
    by (simp add: stopIdleCheck_eq timers_wf_def armed_def handle_list_def)
qed

lemma timers_wf_fields:
  "timers_wf (m\<lparr>lease := x\<rparr>, rt) = timers_wf (m, rt)"
  "timers_wf (m\<lparr>lastActivity := t\<rparr>, rt) = timers_wf (m, rt)"
  "timers_wf (m\<lparr>lastQuotaCheck := t\<rparr>, rt) = timers_wf (m, rt)"
  "timers_wf (m, fetch r rt) = timers_wf (m, rt)"
  "timers_wf (m, rt\<lparr>callbacksRun := cs\<rparr>) = timers_wf (m, rt)"
  by (simp_all add: timers_wf_def armed_def fetch_def)

text \<open>What installing a lease does to the timers: the tail shared by \<open>acquire\<close> and \<open>reportIssue\<close>.\<close>

lemma installed_timers:
  fixes ttl :: rat
  assumes "timers_wf (m, rt)"
  defines "s' \<equiv> startIdleCheck (updateActivity (startHeartbeat ttl (m, rt)))"
  shows "timers_wf s'"
    and "heartbeatTimer (fst s') = Some (nextTimer rt)"
    and "armed HeartbeatTick (snd s') = [(nextTimer rt, heartbeat_of ttl (clock rt))]"
proof -
  obtain m1 rt1 where s1: "startHeartbeat ttl (m, rt) = (m1, rt1)"
    by (cases "startHeartbeat ttl (m, rt)")
  from timers_wf_startHeartbeat [OF assms(1), of ttl] s1
  have wf1: "timers_wf (m1, rt1)"
    and hb1: "armed HeartbeatTick rt1 = [(nextTimer rt, heartbeat_of ttl (clock rt))]"
    by simp_all
  have h1: "heartbeatTimer m1 = Some (nextTimer rt)"
    using s1 by (auto simp: startHeartbeat_eq)
  let ?m2 = "m1\<lparr>lastActivity := clock rt1\<rparr>"
  have wf2: "timers_wf (?m2, rt1)"
    using wf1 by (simp add: timers_wf_fields)
  have s': "s' = startIdleCheck (?m2, rt1)"
    by (simp add: s'_def s1)
  from timers_wf_startIdleCheck [OF wf2] show "timers_wf s'"
    by (simp add: s')
  from timers_wf_startIdleCheck(2) [OF wf2] hb1
  show "armed HeartbeatTick (snd s') = [(nextTimer rt, heartbeat_of ttl (clock rt))]"
    by (simp add: s')
  show "heartbeatTimer (fst s') = Some (nextTimer rt)"
    using h1 by (simp add: s' startIdleCheck_eq)
qed


lemma reportIssue_success_state:
  assumes "reportIssue pf reason rtime (Response ok st (Some body)) (m, rt) = (Inr l, s')"
  shows "\<exists>d l0 m0 rt0. new_lease_of body = Some d \<and> lease m = Some l0 \<and>
           stopHeartbeat (m, fetch (ReportIssueReq (leaseId l0) (clientId m) reason
             (if truthy rtime then rtime else None)) rt) = (m0, rt0) \<and>
           s' = startIdleCheck (updateActivity (startHeartbeat (ttl_seconds d)
                  (m0\<lparr>lease := Some l\<rparr>, rt0)))"
  using assms
  by (cases "stopHeartbeat (m, fetch (ReportIssueReq (leaseId (the (lease m))) (clientId m) reason
             (if truthy rtime then rtime else None)) rt)")
     (auto simp: reportIssue_def Let_def split: option.splits if_splits sum.splits prod.splits)











section \<open>The shutdown coordinator\<close>

lemma handleShutdown_ignored:
  "isShuttingDown lc \<Longrightarrow> handleShutdown out (lc, s) = (lc, s)"
  by simp

lemma run_listener_ignored:
  "isShuttingDown lc \<Longrightarrow> run_listener out l (lc, s) = (lc, s)"
  by (cases l) simp_all

lemma handleShutdown_effect:
  assumes "\<not> isShuttingDown lc"
  shows "isShuttingDown (fst (handleShutdown out (lc, s)))"
    and "sequences_started (fst (handleShutdown out (lc, s))) = Suc (sequences_started lc)"
    and "steps (fst (handleShutdown out (lc, s))) =
           steps lc @ WatchdogStarted WATCHDOG_TIMEOUT_MS #
             (if leaseManagerRef lc then [ReleaseCalled] else []) @ [WatchdogCleared]"
  using assms by (simp_all add: Let_def sequences_started_def)

lemma beforeExitHook_effect:
  "sequences_started (fst (beforeExitHook out (lc, s))) = sequences_started lc"
  by (simp add: sequences_started_def)

text \<open>
  However many listeners run on one event, and whatever ran before, at most one of them
  starts the shutdown sequence, and none does once the flag is set.
\<close>

lemma listeners_start_at_most_one:
  "sequences_started (fst (foldl (\<lambda>acc l. run_listener out l acc) (lc, s) ls)) \<le>
     sequences_started lc + (if isShuttingDown lc then 0 else 1)"
proof (induction ls arbitrary: lc s)
  case Nil
  then show ?case by simp
next
  case (Cons l ls)
  show ?case
  proof (cases "isShuttingDown lc")
    case True
    with Cons.IH [of lc s] show ?thesis
      by (simp add: run_listener_ignored del: handleShutdown.simps beforeExitHook.simps)
  next
    case False
    obtain lc' s' where r: "run_listener out l (lc, s) = (lc', s')"
      by (cases "run_listener out l (lc, s)")
    show ?thesis
    proof (cases l)
      case HandleShutdown
      with r False handleShutdown_effect(1,2) [OF False, of out s]
      have "isShuttingDown lc'" "sequences_started lc' = Suc (sequences_started lc)"
        by simp_all
      with Cons.IH [of lc' s'] r False show ?thesis
        by (simp del: handleShutdown.simps beforeExitHook.simps run_listener.simps)
    next
      case BeforeExitHook
      with r beforeExitHook_effect [of out lc s]
      have "sequences_started lc' = sequences_started lc"
        by simp
      with Cons.IH [of lc' s'] r False show ?thesis
        by (simp del: handleShutdown.simps beforeExitHook.simps run_listener.simps
              split: if_splits)
    qed
  qed
qed

lemma emit_starts_at_most_one:
  "sequences_started (fst (emit ev out (lc, s))) \<le>
     sequences_started lc + (if isShuttingDown lc then 0 else 1)"
  unfolding emit_def by (simp only: fst_conv listeners_start_at_most_one)

text \<open>
  C9. After \<open>initLifecycle\<close> is called twice in a process that is not shutting down, every
  termination signal has two registered handlers, and the exit hook is registered twice:
  the guard of the registration tests the shutdown flag, not whether the handlers are
  registered already. A signal then runs \<open>handleShutdown\<close> twice; the first run performs
  the shutdown sequence and the second is ignored by the flag.
\<close>

theorem initLifecycle_twice_registers_twice:
  "listeners (initLifecycle lifecycle_init) =
     [(OnSignal SIGTERM, HandleShutdown), (OnSignal SIGINT, HandleShutdown),
      (OnSignal SIGHUP, HandleShutdown), (BeforeExit, BeforeExitHook)] \<and>
   listeners (initLifecycle (initLifecycle lifecycle_init)) =
     [(OnSignal SIGTERM, HandleShutdown), (OnSignal SIGINT, HandleShutdown),
      (OnSignal SIGHUP, HandleShutdown), (BeforeExit, BeforeExitHook),
      (OnSignal SIGTERM, HandleShutdown), (OnSignal SIGINT, HandleShutdown),
      (OnSignal SIGHUP, HandleShutdown), (BeforeExit, BeforeExitHook)] \<and>
   length (filter (\<lambda>e. fst e = OnSignal SIGTERM)
             (listeners (initLifecycle (initLifecycle lifecycle_init)))) = 2 \<and>
   steps (fst (emit (OnSignal SIGTERM) Rejected
                 (initLifecycle (initLifecycle lifecycle_init), ex_held))) =
     [WatchdogStarted 10000, ReleaseCalled, WatchdogCleared]"
  by (simp add: initLifecycle_def lifecycle_init_def Let_def emit_def WATCHDOG_TIMEOUT_MS_def)

section \<open>checkQuota: what a poll computes\<close>

lemma checkQuota_answered:
  assumes "lease m = Some l" "quotaCheckIntervalMs m \<le> clock rt - lastQuotaCheck m"
  shows "checkQuota pf (Response True st (Some tok)) (Response True st' (Some qd)) sw (m, rt) =
     quota_poll pf qd sw
       (m\<lparr>lastQuotaCheck := clock rt\<rparr>,
        rt\<lparr>requests := requests rt @
           [TokenReq (refreshToken (account l)),
            ModelsReq (access_token tok) (or_else (projectId (account l)) [])]\<rparr>)"
  using assms by (simp add: Let_def fetch_def)

text \<open>
  The snapshot of a poll that got both answers: the fraction the loop arrives at as
  \<open>percentage\<close>, that fraction times 100 rounded as \<open>remaining\<close>, and \<open>total = 100\<close>.
\<close>

lemma quota_poll_result:
  "fst (quota_poll pf qd sw s) =
     Some \<lparr>remaining =
             js_round (js_mul (fst (scan_models (map snd (case models qd of None \<Rightarrow> []
                                                           | Some xs \<Rightarrow> xs))))
                              (Fin 100)),
           total' = 100,
           percentage = fst (scan_models (map snd (case models qd of None \<Rightarrow> []
                                                     | Some xs \<Rightarrow> xs)))\<rparr>"
  by (simp add: quota_poll_def Let_def double_values split: sum.splits)

text \<open>The loop keeps a reset time only together with a fraction below the one it held.\<close>

lemma quota_step_keeps_reset:
  "\<not> js_less (fraction_of info) (fst acc) \<Longrightarrow> quota_step acc info = acc"
  by (simp add: quota_step_def)

text \<open>
  C7. The claim fails where entries tie at the minimum. With lease 123 held, the response
  has two entries at fraction 0.125, the first with reset time 13:00 and the second with
  12:30, the earlier one. The poll returns \<open>{remaining: 13, total: 100, percentage: 0.125}\<close>
  and, since 0.125 is below the threshold 0.2, sends a report-issue request with reason
  \<open>quota_exhausted\<close>; the reset time it carries is 13:00, that of the first entry, and not
  the earliest reset time among the entries at the minimum.
\<close>

theorem checkQuota_tie_reports_later_reset:
  "map fraction_of (map snd ex_models_tie) = [Fin (1 / 8), Fin (1 / 8)] \<and>
   map resetTime_of (map snd ex_models_tie) =
     [Some ''2025-01-24T13:00:00.000Z'', Some ''2025-01-24T12:30:00.000Z''] \<and>
   earlier ex_platform ''2025-01-24T12:30:00.000Z'' ''2025-01-24T13:00:00.000Z'' \<and>
   fst (checkQuota ex_platform ex_token ex_quota_tie Rejected ex_held) =
     Some \<lparr>remaining = Fin 13, total' = 100, percentage = Fin (1 / 8)\<rparr> \<and>
   requests (snd (snd (checkQuota ex_platform ex_token ex_quota_tie Rejected ex_held))) =
     [AcquireReq ''client-1'', TokenReq ''refresh-a'', ModelsReq ''access-1'' ''project-a'',
      QuotaReportReq ''a@example.com''
        [\<lparr>model_name = ''model-x'', percentage_reported = Fin 13,
          reset_time = Some ''2025-01-24T13:00:00.000Z''\<rparr>,
         \<lparr>model_name = ''model-y'', percentage_reported = Fin 13,
          reset_time = Some ''2025-01-24T12:30:00.000Z''\<rparr>],
      ReportIssueReq 123 ''client-1'' ''quota_exhausted''
        (Some (Text ''2025-01-24T13:00:00.000Z''))]"
proof -
  have 1: "map fraction_of (map snd ex_models_tie) = [Fin (1 / 8), Fin (1 / 8)]"
    "map resetTime_of (map snd ex_models_tie) =
       [Some ''2025-01-24T13:00:00.000Z'', Some ''2025-01-24T12:30:00.000Z'']"
    by (simp_all add: ex_models_tie_def fraction_of_def resetTime_of_def double_values)
  have 2: "earlier ex_platform ''2025-01-24T12:30:00.000Z'' ''2025-01-24T13:00:00.000Z''"
    by (simp add: earlier_def ex_platform_def)
  have 3: "checkQuota ex_platform ex_token ex_quota_tie Rejected ex_held =
     (Some \<lparr>remaining = Fin 13, total' = 100, percentage = Fin (1 / 8)\<rparr>,
      ((fst ex_held)\<lparr>lastQuotaCheck := 1737720000000\<rparr>,
       (snd ex_held)\<lparr>requests :=
          [AcquireReq ''client-1'', TokenReq ''refresh-a'', ModelsReq ''access-1'' ''project-a'',
           QuotaReportReq ''a@example.com''
             [\<lparr>model_name = ''model-x'', percentage_reported = Fin 13,
               reset_time = Some ''2025-01-24T13:00:00.000Z''\<rparr>,
              \<lparr>model_name = ''model-y'', percentage_reported = Fin 13,
               reset_time = Some ''2025-01-24T12:30:00.000Z''\<rparr>],
           ReportIssueReq 123 ''client-1'' ''quota_exhausted''
             (Some (Text ''2025-01-24T13:00:00.000Z''))]\<rparr>))"
    by (simp add: ex_held_eq ex_token_def ex_quota_tie_def ex_models_tie_def Let_def
        quota_poll_def scan_models_def quota_step_def fraction_of_def resetTime_of_def
        reportQuotaToServer_eq quota_entry_def fetch_def reset_hint_def reportIssue_def
        double_values to_double_fifth round_def
        del: reportQuotaToServer.simps)
  from 1 2 show ?thesis
    unfolding 3 by (simp add: ex_held_eq)
qed

section \<open>The operations keep the timers in agreement with the handles\<close>

lemma timers_wf_installed:
  assumes "timers_wf (m, rt)"
  shows "timers_wf (startIdleCheck (updateActivity (startHeartbeat ttl (m\<lparr>lease := x\<rparr>, rt))))"
proof -
  from assms have "timers_wf (m\<lparr>lease := x\<rparr>, rt)"
    by (simp add: timers_wf_fields)
  then show ?thesis
    by (rule installed_timers(1))
qed

lemma timers_wf_acquire:
  assumes "timers_wf (m, rt)"
  shows "timers_wf (snd (acquire pf out (m, rt)))"
proof (cases "failed_before_install pf (apiKey m) out")
  case True
  from acquire_failed_before_install [OF True, of rt] assms show ?thesis
    by (auto simp: timers_wf_fields)
next
  case False
  then obtain st d dec where out: "out = Response True st (Some d)"
    and dec: "decryptData pf (account_enc d) (apiKey m) = Some dec"
    by (auto simp: failed_before_install_def split: fetch_outcome.splits option.splits)
  from assms have "timers_wf (m, fetch (AcquireReq (clientId m)) rt)"
    by (simp add: timers_wf_fields)
  from timers_wf_installed [OF this, of "ttl_seconds d" "Some (install_lease d dec pf)"]
  show ?thesis
    unfolding out acquire_def acquire_try_installed [OF dec]
    by (simp split: sum.splits)
qed

lemma timers_wf_release:
  assumes "timers_wf (m, rt)"
  shows "timers_wf (snd (release out (m, rt)))"
proof -
  obtain m1 rt1 where s1: "stopHeartbeat (m, rt) = (m1, rt1)"
    by (cases "stopHeartbeat (m, rt)")
  obtain m2 rt2 where s2: "stopIdleCheck (m1, rt1) = (m2, rt2)"
    by (cases "stopIdleCheck (m1, rt1)")
  from timers_wf_stopHeartbeat [OF assms] s1 have "timers_wf (m1, rt1)"
    by simp
  from timers_wf_stopIdleCheck [OF this] s2 have wf: "timers_wf (m2, rt2)"
    by simp
  then show ?thesis
    by (simp add: release_def s1 s2 timers_wf_fields split: option.splits)
qed

lemma timers_wf_renew:
  assumes "timers_wf (m, rt)"
  shows "timers_wf (snd (renew pf out (m, rt)))"
proof (cases "lease m")
  case None
  with assms show ?thesis by (simp add: renew_def)
next
  case (Some l)
  show ?thesis
  proof (cases "no_usable_answer out")
    case True
    from renew_failed [OF Some True, of pf rt] assms show ?thesis
      by (auto simp: timers_wf_fields)
  next
    case False
    then obtain st d where out: "out = Response True st (Some d)"
      by (auto simp: no_usable_answer_def split: fetch_outcome.splits)
    let ?l = "l\<lparr>expiresAt := newDate pf (expires_at d)\<rparr>"
    let ?rt = "fetch (RenewReq (leaseId l) (clientId m)) rt"
    obtain m1 rt1 where s1: "stopHeartbeat (m\<lparr>lease := Some ?l\<rparr>, ?rt) = (m1, rt1)"
      by (cases "stopHeartbeat (m\<lparr>lease := Some ?l\<rparr>, ?rt)")
    from assms have "timers_wf (m\<lparr>lease := Some ?l\<rparr>, ?rt)"
      by (simp add: timers_wf_fields)
    from timers_wf_stopHeartbeat [OF this] s1 have "timers_wf (m1, rt1)"
      by simp
    from timers_wf_startHeartbeat(1) [OF this, of "ttl_seconds d"] s1 Some
    show ?thesis
      unfolding out by (simp add: renew_def Let_def split: sum.splits)
  qed
qed

lemma timers_wf_reportIssue:
  assumes "timers_wf (m, rt)"
  shows "timers_wf (snd (reportIssue pf reason rtime out (m, rt)))"
proof (cases "reportIssue pf reason rtime out (m, rt)")
  case (fields r m' rt')
  show ?thesis
  proof (cases r)
    case (Inl e)
    with fields reportIssue_failure_effects [of pf reason rtime out m rt e m' rt']
    have eff: "(e \<noteq> SwitchFailure DecryptError \<longrightarrow> m' = m \<and> intervals rt' = intervals rt)"
      "(e = SwitchFailure DecryptError \<longrightarrow>
          m' = m\<lparr>heartbeatTimer := None\<rparr> \<and>
          intervals rt' = cleared (heartbeatTimer m) (intervals rt))"
      by simp_all
    have nt: "nextTimer rt' = nextTimer rt"
      using fields Inl
      by (auto simp: reportIssue_def Let_def stopHeartbeat_eq fetch_def
               split: option.splits fetch_outcome.splits if_splits sum.splits prod.splits)
    show ?thesis
    proof (cases "e = SwitchFailure DecryptError")
      case True
      from timers_wf_stopHeartbeat [OF assms] eff(2) True nt
      show ?thesis
        by (simp add: fields stopHeartbeat_eq timers_wf_def armed_def)
    next
      case False
      with eff(1) assms nt show ?thesis
        by (simp add: fields timers_wf_def armed_def)
    qed
  next
    case (Inr l')
    with fields have ok: "\<exists>ok st body. out = Response ok st (Some body)"
      by (auto simp: reportIssue_def Let_def
               split: option.splits fetch_outcome.splits if_splits sum.splits prod.splits)
    then obtain ok st body where out: "out = Response ok st (Some body)"
      by blast
    from fields Inr out
    have r': "reportIssue pf reason rtime (Response ok st (Some body)) (m, rt) = (Inr l', (m', rt'))"
      by simp
    from reportIssue_success_state [OF r']
    obtain d :: lease_acquire_response and l0 :: lease_state and m0 rt0 where
      st: "stopHeartbeat (m, fetch (ReportIssueReq (leaseId l0) (clientId m) reason
             (if truthy rtime then rtime else None)) rt) = (m0, rt0)"
      and s': "(m', rt') = startIdleCheck (updateActivity (startHeartbeat (ttl_seconds d)
                  (m0\<lparr>lease := Some l'\<rparr>, rt0)))"
      by blast
    from assms have "timers_wf (m, fetch (ReportIssueReq (leaseId l0) (clientId m) reason
             (if truthy rtime then rtime else None)) rt)"
      by (simp add: timers_wf_fields)
    from timers_wf_stopHeartbeat [OF this] st have "timers_wf (m0, rt0)"
      by simp
    from timers_wf_installed [OF this, of "ttl_seconds d" "Some l'"] s' fields
    show ?thesis by simp
  qed
qed

end
